theory Spec2Isabelle
  imports Complex_Main
begin

section \<open>Python values\<close>

text \<open>
  The embedding follows \<^verbatim>\<open>podx/ui/run_manager.py\<close> and \<^verbatim>\<open>podx/ui/api.py\<close>.
  Names are the source's; a leading underscore is dropped (\<^verbatim>\<open>_active_runs\<close> is
  \<open>active_runs\<close>, \<^verbatim>\<open>_load_history\<close> is \<open>load_history\<close>), since an Isabelle
  name cannot start with one.

  A \<^verbatim>\<open>datetime\<close> is a point on a discrete time line (an integer count of
  microseconds). The clock \<^verbatim>\<open>datetime.now()\<close> and the generator \<^verbatim>\<open>uuid.uuid4()\<close>
  are outside the program: every function that calls one of them takes the value the
  call returned as an argument (\<open>now\<close>, \<open>uuid\<close>).

  A Python \<^verbatim>\<open>dict\<close> keeps its keys in insertion order, and
  \<^verbatim>\<open>list(d.values())\<close> exposes that order, so a dict is an association list:
  \<open>map_of\<close> is \<^verbatim>\<open>d.get(k)\<close>, \<open>dict_set\<close> is \<^verbatim>\<open>d[k] = v\<close> (an existing key keeps
  its position, a new key goes last) and \<open>dict_del\<close> is \<^verbatim>\<open>del d[k]\<close>.
  Calls to the logger are left out, except the warnings of \<open>load_history\<close>.
\<close>

type_synonym datetime = int

fun dict_set :: "'k \<Rightarrow> 'v \<Rightarrow> ('k \<times> 'v) list \<Rightarrow> ('k \<times> 'v) list" where
  "dict_set k v [] = [(k, v)]"
| "dict_set k v (p # ps) = (if fst p = k then (k, v) # ps else p # dict_set k v ps)"

fun dict_del :: "'k \<Rightarrow> ('k \<times> 'v) list \<Rightarrow> ('k \<times> 'v) list" where
  "dict_del k [] = []"
| "dict_del k (p # ps) = (if fst p = k then ps else p # dict_del k ps)"

definition dict_values :: "('k \<times> 'v) list \<Rightarrow> 'v list" where
  "dict_values d = map snd d"

text \<open>
  Exceptions are values. Only the class of an exception is kept, its message is not;
  all of these are subclasses of \<^verbatim>\<open>Exception\<close>.
\<close>

datatype py_exc =
    RuntimeError | OSError | JSONDecodeError | TypeError | KeyError | ValueError
  | AttributeError

text \<open>
  \<open>json\<close> is a value as \<^verbatim>\<open>json.loads\<close> builds it: \<open>JObj\<close> is a \<^verbatim>\<open>dict\<close> (its items in
  order), \<open>JArr\<close> a \<^verbatim>\<open>list\<close>, \<open>JNum\<close> an \<^verbatim>\<open>int\<close> or a \<^verbatim>\<open>float\<close> (Python has \<^verbatim>\<open>1 == 1.0\<close>).
  The tokens \<^verbatim>\<open>NaN\<close>, \<^verbatim>\<open>Infinity\<close> and \<^verbatim>\<open>-Infinity\<close>, which \<^verbatim>\<open>json.loads\<close> also reads, have
  no value here. \<open>truthy\<close> is Python's truth value (\<^verbatim>\<open>if x:\<close>).
\<close>

datatype json =
    JNull | JBool bool | JNum real | JStr string | JArr "json list"
  | JObj "(string \<times> json) list"

fun truthy :: "json \<Rightarrow> bool" where
  "truthy JNull = False"
| "truthy (JBool b) = b"
| "truthy (JNum x) = (x \<noteq> 0)"
| "truthy (JStr s) = (s \<noteq> [])"
| "truthy (JArr xs) = (xs \<noteq> [])"
| "truthy (JObj kvs) = (kvs \<noteq> [])"

section \<open>Run records and the run manager (run\_manager.py)\<close>

text \<open>
  \<^verbatim>\<open>PipelineConfig\<close> and \<^verbatim>\<open>PipelineResult\<close> come from \<^verbatim>\<open>podx.domain\<close>, which is not part of
  the sources at hand. The configuration is opaque (a type parameter); of the result,
  the five fields that \<^verbatim>\<open>RunState._result_to_dict\<close> reads are kept. \<^verbatim>\<open>notion_url\<close> holds
  the value that \<^verbatim>\<open>set_notion_url\<close> is given, which \<^verbatim>\<open>_execute_pipeline\<close> takes from a file.
\<close>

record PipelineResult =
  workdir :: string
  steps_completed :: "string list"
  artifacts :: "(string \<times> string) list"
  duration :: real
  errors :: "string list"

record 'cfg RunState =
  run_id :: string
  config :: 'cfg
  status :: string
  progress :: "(string \<times> string) list"
  result :: "PipelineResult option"
  error :: "string option"
  started_at :: datetime
  completed_at :: "datetime option"
  notion_url :: "json option"

text \<open>
  An asyncio task is a handle. \<^verbatim>\<open>task.cancel()\<close> is an effect on the task object, not
  on the manager: \<open>cancelled_tasks\<close> is the log of these calls, oldest first.
\<close>

type_synonym task = nat

record 'cfg RunManager =
  history_file :: string
  max_concurrent :: int
  max_history :: int
  active_runs :: "(string \<times> 'cfg RunState) list"
  run_tasks :: "(string \<times> task) list"
  cancelled_tasks :: "task list"

definition RunManager_init :: "string \<Rightarrow> int \<Rightarrow> int \<Rightarrow> 'cfg RunManager" where
  "RunManager_init file mc mh =
     \<lparr>history_file = file, max_concurrent = mc, max_history = mh,
      active_runs = [], run_tasks = [], cancelled_tasks = []\<rparr>"

text \<open>The defaults of \<^verbatim>\<open>RunManager.__init__\<close>: \<^verbatim>\<open>max_concurrent=1, max_history=20\<close>.\<close>

definition RunManager_default :: "string \<Rightarrow> 'cfg RunManager" where
  "RunManager_default file = RunManager_init file 1 20"

definition active_count :: "'cfg RunManager \<Rightarrow> nat" where
  "active_count m =
     length (filter (\<lambda>run. status run \<in> set [''pending'', ''running''])
               (dict_values (active_runs m)))"

definition create_run ::
  "'cfg RunManager \<Rightarrow> 'cfg \<Rightarrow> string \<Rightarrow> datetime \<Rightarrow> py_exc + (string \<times> 'cfg RunManager)" where
  "create_run m cfg uuid now =
     (if int (active_count m) \<ge> max_concurrent m then Inl RuntimeError
      else
        let run_state =
              \<lparr>run_id = uuid, config = cfg, status = ''pending'', progress = [],
               result = None, error = None, started_at = now, completed_at = None,
               notion_url = None\<rparr>
        in Inr (uuid, m\<lparr>active_runs := dict_set uuid run_state (active_runs m)\<rparr>))"

definition get_run :: "'cfg RunManager \<Rightarrow> string \<Rightarrow> 'cfg RunState option" where
  "get_run m rid = map_of (active_runs m) rid"

text \<open>
  The mutators change the record object that the registry holds: in the model the entry
  of the registry is replaced at its key, which keeps its position.
\<close>

definition update_run_status ::
  "'cfg RunManager \<Rightarrow> string \<Rightarrow> string \<Rightarrow> datetime \<Rightarrow> 'cfg RunManager" where
  "update_run_status m rid st now =
     (case map_of (active_runs m) rid of
        None \<Rightarrow> m
      | Some run \<Rightarrow>
          let run1 = run\<lparr>status := st\<rparr>;
              run2 = (if st \<in> set [''completed'', ''failed'', ''canceled'']
                      then run1\<lparr>completed_at := Some now\<rparr> else run1)
          in m\<lparr>active_runs := dict_set rid run2 (active_runs m)\<rparr>)"

definition update_run_progress ::
  "'cfg RunManager \<Rightarrow> string \<Rightarrow> string \<Rightarrow> string \<Rightarrow> 'cfg RunManager" where
  "update_run_progress m rid stage st =
     (case map_of (active_runs m) rid of
        None \<Rightarrow> m
      | Some run \<Rightarrow>
          m\<lparr>active_runs :=
              dict_set rid (run\<lparr>progress := dict_set stage st (progress run)\<rparr>)
                (active_runs m)\<rparr>)"

definition set_run_result ::
  "'cfg RunManager \<Rightarrow> string \<Rightarrow> PipelineResult \<Rightarrow> datetime \<Rightarrow> 'cfg RunManager" where
  "set_run_result m rid res now =
     (case map_of (active_runs m) rid of
        None \<Rightarrow> m
      | Some run \<Rightarrow>
          m\<lparr>active_runs :=
              dict_set rid
                (run\<lparr>result := Some res,
                     status := (if errors res = [] then ''completed'' else ''failed''),
                     completed_at := Some now\<rparr>)
                (active_runs m)\<rparr>)"

definition set_run_error ::
  "'cfg RunManager \<Rightarrow> string \<Rightarrow> string \<Rightarrow> datetime \<Rightarrow> 'cfg RunManager" where
  "set_run_error m rid err now =
     (case map_of (active_runs m) rid of
        None \<Rightarrow> m
      | Some run \<Rightarrow>
          m\<lparr>active_runs :=
              dict_set rid
                (run\<lparr>error := Some err, status := ''failed'', completed_at := Some now\<rparr>)
                (active_runs m)\<rparr>)"

definition set_notion_url :: "'cfg RunManager \<Rightarrow> string \<Rightarrow> json \<Rightarrow> 'cfg RunManager" where
  "set_notion_url m rid url =
     (case map_of (active_runs m) rid of
        None \<Rightarrow> m
      | Some run \<Rightarrow>
          m\<lparr>active_runs := dict_set rid (run\<lparr>notion_url := Some url\<rparr>) (active_runs m)\<rparr>)"

definition cancel_run ::
  "'cfg RunManager \<Rightarrow> string \<Rightarrow> datetime \<Rightarrow> bool \<times> 'cfg RunManager" where
  "cancel_run m rid now =
     (case map_of (active_runs m) rid of
        None \<Rightarrow> (False, m)
      | Some run \<Rightarrow>
          if status run \<notin> set [''pending'', ''running''] then (False, m)
          else
            let m1 = m\<lparr>active_runs :=
                        dict_set rid (run\<lparr>status := ''canceled'', completed_at := Some now\<rparr>)
                          (active_runs m)\<rparr>;
                m2 = (case map_of (run_tasks m1) rid of
                        None \<Rightarrow> m1
                      | Some t \<Rightarrow>
                          m1\<lparr>cancelled_tasks := cancelled_tasks m1 @ [t],
                             run_tasks := dict_del rid (run_tasks m1)\<rparr>)
            in (True, m2))"

definition register_task :: "'cfg RunManager \<Rightarrow> string \<Rightarrow> task \<Rightarrow> 'cfg RunManager" where
  "register_task m rid t = m\<lparr>run_tasks := dict_set rid t (run_tasks m)\<rparr>"

section \<open>The history store (run\_manager.py)\<close>

text \<open>\<^verbatim>\<open>d.get(k, default)\<close> and \<^verbatim>\<open>d[k]\<close> on a dict.\<close>

definition dict_get :: "(string \<times> json) list \<Rightarrow> string \<Rightarrow> json \<Rightarrow> json" where
  "dict_get d k dflt = (case map_of d k of None \<Rightarrow> dflt | Some v \<Rightarrow> v)"

definition dict_item :: "(string \<times> json) list \<Rightarrow> string \<Rightarrow> py_exc + json" where
  "dict_item d k = (case map_of d k of None \<Rightarrow> Inl KeyError | Some v \<Rightarrow> Inr v)"

text \<open>
  \<^verbatim>\<open>x["workdir"]\<close> on any value: only a dict can be indexed by a string; a list, a string,
  a number, a boolean and \<^verbatim>\<open>None\<close> raise \<^verbatim>\<open>TypeError\<close>.
\<close>

fun subscript :: "json \<Rightarrow> string \<Rightarrow> py_exc + json" where
  "subscript (JObj d) k = dict_item d k"
| "subscript j k = Inl TypeError"

text \<open>
  \<^verbatim>\<open>for run_dict in data\<close>: a list yields its elements, a dict its keys, a string its
  characters; the other values are not iterable. (Text beyond ASCII has more bytes here
  than Python has characters; none of them converts to a run in either reading.)
\<close>

fun iterate :: "json \<Rightarrow> py_exc + json list" where
  "iterate (JArr xs) = Inr xs"
| "iterate (JObj kvs) = Inr (map (\<lambda>kv. JStr (fst kv)) kvs)"
| "iterate (JStr s) = Inr (map (\<lambda>c. JStr [c]) s)"
| "iterate j = Inl TypeError"

text \<open>
  What the file system and \<^verbatim>\<open>json.loads\<close> give for a file that is read:
  \<^item> \<open>Inaccessible\<close>: \<^verbatim>\<open>path.exists()\<close> itself raises. Up to Python 3.12, \<^verbatim>\<open>Path.exists\<close>
    returns \<^verbatim>\<open>False\<close> only for the errors \<^verbatim>\<open>ENOENT\<close>, \<^verbatim>\<open>ENOTDIR\<close>, \<^verbatim>\<open>EBADF\<close> and \<^verbatim>\<open>ELOOP\<close> of
    \<^verbatim>\<open>stat\<close> and raises the others: \<^verbatim>\<open>PermissionError\<close> for a directory on the path that
    may not be searched, \<^verbatim>\<open>OSError\<close> for a name that is too long;
  \<^item> \<open>NoFile\<close>: \<^verbatim>\<open>exists()\<close> is false;
  \<^item> \<open>Unreadable\<close>: the path exists and \<^verbatim>\<open>read_text()\<close> raises (a directory, a file
    that may not be read, bytes that are not text);
  \<^item> \<open>NotJson\<close>: the text is read and \<^verbatim>\<open>json.loads\<close> raises;
  \<^item> \<open>Json j\<close>: the text decodes to \<open>j\<close>.

  What writing the history file meets is a second, independent fact of the
  environment: \<open>MkdirRaises\<close> when \<^verbatim>\<open>parent.mkdir(parents=True, exist_ok=True)\<close> raises,
  \<open>WriteRaises\<close> when \<^verbatim>\<open>write_text\<close> cannot open the file for writing (a directory, a
  read-only file), \<open>Writes\<close> otherwise. A write that fails half way (a full disk) is not
  modelled.
\<close>

datatype history_store = Inaccessible | NoFile | Unreadable | NotJson | Json json

datatype write_env = Writes | MkdirRaises | WriteRaises

text \<open>
  A \<^verbatim>\<open>datetime\<close> read from a file is naive or carries a UTC offset, as its text says:
  \<open>Aware t off\<close> is the instant \<open>t\<close> on the UTC time line, written with offset \<open>off\<close>.
  Python compares two naive values and two aware values (by their instants), and raises
  \<^verbatim>\<open>TypeError\<close> for a naive against an aware one. \<^verbatim>\<open>datetime.now()\<close> is naive.
\<close>

datatype py_datetime = Naive int | Aware int int

fun is_aware :: "py_datetime \<Rightarrow> bool" where
  "is_aware (Naive t) = False"
| "is_aware (Aware t off) = True"

fun instant :: "py_datetime \<Rightarrow> int" where
  "instant (Naive t) = t"
| "instant (Aware t off) = t"

text \<open>
  A dataclass does not check the types it annotates: the \<^verbatim>\<open>RunState\<close> that
  \<^verbatim>\<open>_dict_to_run_state\<close> builds carries in \<^verbatim>\<open>run_id\<close>, \<^verbatim>\<open>status\<close>, \<^verbatim>\<open>progress\<close>, \<^verbatim>\<open>error\<close> and
  \<^verbatim>\<open>notion_url\<close> whatever value the file holds. \<open>LoadedRun\<close> is a \<^verbatim>\<open>RunState\<close> object in
  this generality (\<open>JNull\<close> is \<^verbatim>\<open>None\<close>), \<open>LoadedResult\<close> a \<^verbatim>\<open>PipelineResult\<close> object alike;
  \<open>loaded_of\<close> is a record of the registry seen as such an object.
\<close>

record LoadedResult =
  l_workdir :: string
  l_steps_completed :: json
  l_artifacts :: json
  l_duration :: json
  l_errors :: json

record 'cfg LoadedRun =
  l_run_id :: json
  l_config :: 'cfg
  l_status :: json
  l_progress :: json
  l_result :: "LoadedResult option"
  l_error :: json
  l_started_at :: py_datetime
  l_completed_at :: "py_datetime option"
  l_notion_url :: json

definition str_items :: "(string \<times> string) list \<Rightarrow> json" where
  "str_items kvs = JObj (map (\<lambda>kv. (fst kv, JStr (snd kv))) kvs)"

definition opt_str :: "string option \<Rightarrow> json" where
  "opt_str x = (case x of None \<Rightarrow> JNull | Some s \<Rightarrow> JStr s)"

definition loaded_result_of :: "PipelineResult \<Rightarrow> LoadedResult" where
  "loaded_result_of r =
     \<lparr>l_workdir = workdir r, l_steps_completed = JArr (map JStr (steps_completed r)),
      l_artifacts = str_items (artifacts r), l_duration = JNum (duration r),
      l_errors = JArr (map JStr (errors r))\<rparr>"

definition loaded_of :: "'cfg RunState \<Rightarrow> 'cfg LoadedRun" where
  "loaded_of run =
     \<lparr>l_run_id = JStr (run_id run), l_config = config run, l_status = JStr (status run),
      l_progress = str_items (progress run),
      l_result = map_option loaded_result_of (result run),
      l_error = opt_str (error run), l_started_at = Naive (started_at run),
      l_completed_at = map_option Naive (completed_at run),
      l_notion_url = (case notion_url run of None \<Rightarrow> JNull | Some u \<Rightarrow> u)\<rparr>"

text \<open>
  The library and \<^verbatim>\<open>podx.domain\<close> calls that \<^verbatim>\<open>_dict_to_run_state\<close> and \<^verbatim>\<open>to_dict\<close>
  make, as parameters:
  \<^item> \<open>PipelineConfig_new\<close>: \<^verbatim>\<open>PipelineConfig(**config_dict)\<close>;
  \<^item> \<open>PipelineResult_new\<close>: \<^verbatim>\<open>PipelineResult(workdir=Path(..), steps_completed=..,
    artifacts=.., duration=.., errors=..)\<close>, from the text given to \<^verbatim>\<open>Path\<close> and the four
    other values; \<open>l_workdir\<close> of the object is \<^verbatim>\<open>str\<close> of its path;
  \<^item> \<open>fromisoformat\<close>, \<open>isoformat\<close>: the two \<^verbatim>\<open>datetime\<close> conversions;
  \<^item> \<open>asdict\<close>: \<^verbatim>\<open>dataclasses.asdict(config).items()\<close>, each value a \<^verbatim>\<open>Path\<close>
    (\<open>PathValue\<close>), a value that \<^verbatim>\<open>json.dumps\<close> can write (\<open>PlainValue\<close>), or one that it
    cannot (\<open>OtherValue\<close>).
\<close>

datatype cfg_value = PathValue string | PlainValue json | OtherValue

record 'cfg domain =
  PipelineConfig_new :: "json \<Rightarrow> py_exc + 'cfg"
  PipelineResult_new :: "string \<Rightarrow> json \<Rightarrow> json \<Rightarrow> json \<Rightarrow> json \<Rightarrow> py_exc + LoadedResult"
  fromisoformat :: "string \<Rightarrow> py_exc + py_datetime"
  isoformat :: "py_datetime \<Rightarrow> string"
  asdict :: "'cfg \<Rightarrow> (string \<times> cfg_value) list"

text \<open>
  \<^verbatim>\<open>_dict_to_run_state\<close>. \<^verbatim>\<open>datetime.fromisoformat\<close> and \<^verbatim>\<open>Path\<close> raise \<^verbatim>\<open>TypeError\<close> for
  a value that is not a string; \<^verbatim>\<open>.get\<close> on a value that is not a dict raises
  \<^verbatim>\<open>AttributeError\<close>.
\<close>

definition parse_time :: "'cfg domain \<Rightarrow> json \<Rightarrow> py_exc + py_datetime" where
  "parse_time lib j = (case j of JStr s \<Rightarrow> fromisoformat lib s | _ \<Rightarrow> Inl TypeError)"

definition parse_result :: "'cfg domain \<Rightarrow> json \<Rightarrow> py_exc + LoadedResult" where
  "parse_result lib result_dict =
     (case subscript result_dict ''workdir'' of
        Inl e \<Rightarrow> Inl e
      | Inr w \<Rightarrow>
          (case w of
             JStr path \<Rightarrow>
               (case result_dict of
                  JObj rd \<Rightarrow>
                    PipelineResult_new lib path
                      (dict_get rd ''steps_completed'' (JArr []))
                      (dict_get rd ''artifacts'' (JObj []))
                      (dict_get rd ''duration'' (JNum 0))
                      (dict_get rd ''errors'' (JArr []))
                | _ \<Rightarrow> Inl AttributeError)
           | _ \<Rightarrow> Inl TypeError))"

definition dict_to_run_state :: "'cfg domain \<Rightarrow> json \<Rightarrow> py_exc + 'cfg LoadedRun" where
  "dict_to_run_state lib run_dict =
     (case run_dict of
        JObj d \<Rightarrow>
          (case PipelineConfig_new lib (dict_get d ''config'' (JObj [])) of
             Inl e \<Rightarrow> Inl e
           | Inr cfg \<Rightarrow>
          (case (if truthy (dict_get d ''result'' JNull)
                 then map_sum id Some (parse_result lib (dict_get d ''result'' JNull))
                 else Inr None) of
             Inl e \<Rightarrow> Inl e
           | Inr res \<Rightarrow>
          (case dict_item d ''started_at'' of
             Inl e \<Rightarrow> Inl e
           | Inr sj \<Rightarrow>
          (case parse_time lib sj of
             Inl e \<Rightarrow> Inl e
           | Inr started \<Rightarrow>
          (case (if truthy (dict_get d ''completed_at'' JNull)
                 then map_sum id Some (parse_time lib (dict_get d ''completed_at'' JNull))
                 else Inr None) of
             Inl e \<Rightarrow> Inl e
           | Inr completed \<Rightarrow>
          (case dict_item d ''run_id'' of
             Inl e \<Rightarrow> Inl e
           | Inr rid \<Rightarrow>
          (case dict_item d ''status'' of
             Inl e \<Rightarrow> Inl e
           | Inr st \<Rightarrow>
               Inr \<lparr>l_run_id = rid, l_config = cfg, l_status = st,
                    l_progress = dict_get d ''progress'' (JObj []),
                    l_result = res, l_error = dict_get d ''error'' JNull,
                    l_started_at = started, l_completed_at = completed,
                    l_notion_url = dict_get d ''notion_url'' JNull\<rparr>)))))))
      | _ \<Rightarrow> Inl AttributeError)"

text \<open>
  The loop of \<^verbatim>\<open>_load_history\<close>: an item whose conversion raises is logged and skipped.
  The result is the list of loaded runs and the warnings logged, both in order.
\<close>

datatype log_record = Warning string py_exc

fun load_items ::
  "'cfg domain \<Rightarrow> json list \<Rightarrow> 'cfg LoadedRun list \<times> log_record list" where
  "load_items lib [] = ([], [])"
| "load_items lib (run_dict # rest) =
     (case dict_to_run_state lib run_dict of
        Inl e \<Rightarrow>
          (fst (load_items lib rest),
           Warning ''Failed to load run from history'' e # snd (load_items lib rest))
      | Inr run \<Rightarrow> (run # fst (load_items lib rest), snd (load_items lib rest)))"

text \<open>
  \<^verbatim>\<open>_load_history\<close> with its handlers explicit: \<open>load_history_body\<close> is the body of the
  outer \<^verbatim>\<open>try\<close>, which may raise; \<open>load_history\<close> returns \<open>Inl\<close> where an exception
  reaches the caller. The test \<^verbatim>\<open>self.history_file.exists()\<close> stands before the \<^verbatim>\<open>try\<close>.
\<close>

definition load_history_body ::
  "'cfg domain \<Rightarrow> history_store \<Rightarrow> py_exc + ('cfg LoadedRun list \<times> log_record list)" where
  "load_history_body lib store =
     (case store of
        Inaccessible \<Rightarrow> Inl OSError
      | NoFile \<Rightarrow> Inl OSError
      | Unreadable \<Rightarrow> Inl OSError
      | NotJson \<Rightarrow> Inl JSONDecodeError
      | Json data \<Rightarrow>
          (case iterate data of
             Inl e \<Rightarrow> Inl e
           | Inr items \<Rightarrow> Inr (load_items lib items)))"

definition load_history ::
  "'cfg domain \<Rightarrow> history_store \<Rightarrow> py_exc + ('cfg LoadedRun list \<times> log_record list)" where
  "load_history lib store =
     (if store = Inaccessible then Inl OSError
      else if store = NoFile then Inr ([], [])
      else
        (case load_history_body lib store of
           Inl e \<Rightarrow> Inr ([], [Warning ''Failed to load history'' e])
         | Inr r \<Rightarrow> Inr r))"

text \<open>
  \<^verbatim>\<open>to_dict\<close> and \<^verbatim>\<open>_save_history\<close>. A \<^verbatim>\<open>PipelineResult\<close> and a \<^verbatim>\<open>datetime\<close> are objects that
  are always true, so \<^verbatim>\<open>x if self.result else None\<close> tests for \<^verbatim>\<open>None\<close>. \<^verbatim>\<open>to_dict\<close> builds a
  dict; \<^verbatim>\<open>json.dumps\<close> raises \<^verbatim>\<open>TypeError\<close> on a configuration value that it cannot write
  (\<open>dumpable\<close> says that there is none), after \<^verbatim>\<open>mkdir\<close> and before \<^verbatim>\<open>write_text\<close>. The text
  written decodes to the value that was dumped: the store after a write is \<open>Json\<close> of
  that value.
\<close>

definition config_to_dict :: "'cfg domain \<Rightarrow> 'cfg LoadedRun \<Rightarrow> (string \<times> json) list" where
  "config_to_dict lib run =
     map (\<lambda>kv. (fst kv, (case snd kv of
                            PathValue p \<Rightarrow> JStr p | PlainValue j \<Rightarrow> j | OtherValue \<Rightarrow> JNull)))
       (asdict lib (l_config run))"

definition dumpable :: "'cfg domain \<Rightarrow> 'cfg LoadedRun \<Rightarrow> bool" where
  "dumpable lib run = list_all (\<lambda>kv. snd kv \<noteq> OtherValue) (asdict lib (l_config run))"

definition result_to_dict :: "'cfg LoadedRun \<Rightarrow> (string \<times> json) list" where
  "result_to_dict run =
     (case l_result run of
        None \<Rightarrow> []
      | Some r \<Rightarrow>
          [(''workdir'', JStr (l_workdir r)),
           (''steps_completed'', l_steps_completed r),
           (''artifacts'', l_artifacts r),
           (''duration'', l_duration r),
           (''errors'', l_errors r)])"

definition to_dict :: "'cfg domain \<Rightarrow> 'cfg LoadedRun \<Rightarrow> json" where
  "to_dict lib run =
     JObj
       [(''run_id'', l_run_id run),
        (''config'', JObj (config_to_dict lib run)),
        (''status'', l_status run),
        (''progress'', l_progress run),
        (''result'', (if l_result run \<noteq> None then JObj (result_to_dict run) else JNull)),
        (''error'', l_error run),
        (''started_at'', JStr (isoformat lib (l_started_at run))),
        (''completed_at'', opt_str (map_option (isoformat lib) (l_completed_at run))),
        (''notion_url'', l_notion_url run)]"

definition save_history ::
  "'cfg domain \<Rightarrow> write_env \<Rightarrow> 'cfg LoadedRun list \<Rightarrow> py_exc + history_store" where
  "save_history lib w runs =
     (if w = MkdirRaises then Inl OSError
      else if \<not> list_all (dumpable lib) runs then Inl TypeError
      else if w = WriteRaises then Inl OSError
      else Inr (Json (JArr (map (to_dict lib) runs))))"

text \<open>
  The slice \<^verbatim>\<open>xs[:n]\<close>: a negative \<open>n\<close> counts from the end.
\<close>

definition slice_to :: "int \<Rightarrow> 'a list \<Rightarrow> 'a list" where
  "slice_to n xs =
     (if 0 \<le> n then take (nat n) xs else take (length xs - nat (- n)) xs)"

text \<open>
  The three list statements of \<^verbatim>\<open>save_to_history\<close> between the load and the write:
  drop the records with the run's identifier, insert the run at index 0, slice. The run
  is a record of the registry, its identifier a string: \<^verbatim>\<open>r.run_id != run.run_id\<close> is
  false only for a record whose \<^verbatim>\<open>run_id\<close> is that same string.
\<close>

definition append_history :: "int \<Rightarrow> 'cfg RunState \<Rightarrow> 'cfg LoadedRun list \<Rightarrow> 'cfg LoadedRun list" where
  "append_history maxh run hist =
     slice_to maxh (loaded_of run # filter (\<lambda>r. l_run_id r \<noteq> JStr (run_id run)) hist)"

definition save_to_history ::
  "'cfg domain \<Rightarrow> write_env \<Rightarrow> 'cfg RunManager \<Rightarrow> 'cfg RunState \<Rightarrow> history_store \<Rightarrow>
   py_exc + history_store" where
  "save_to_history lib w m run store =
     (case load_history lib store of
        Inl e \<Rightarrow> Inl e
      | Inr r \<Rightarrow> save_history lib w (append_history (max_history m) run (fst r)))"

text \<open>
  \<^verbatim>\<open>list_recent_runs\<close>. \<^verbatim>\<open>limit or self.max_history\<close> takes \<^verbatim>\<open>max_history\<close> for \<^verbatim>\<open>None\<close> and for
  \<open>0\<close>.

  \<^verbatim>\<open>list.sort(key=.., reverse=True)\<close> compares the \<^verbatim>\<open>started_at\<close> values. A comparison sort
  that is right on every order cannot finish without comparing across two groups of its
  input, so the sort raises \<^verbatim>\<open>TypeError\<close> exactly when the list holds a naive and an
  aware value. Otherwise it is stable, also when reversed: \<open>sort_key\<close> on the negated
  instant is a stable sort into descending order, and so returns the same list.

  \<open>dedup\<close> is the loop over \<^verbatim>\<open>all_runs\<close> with its set \<^verbatim>\<open>seen\<close>: \<^verbatim>\<open>run.run_id not in seen\<close>
  hashes the identifier and raises \<^verbatim>\<open>TypeError\<close> for a list or a dict; \<open>key_eq\<close> is
  equality of the values that can be hashed (\<^verbatim>\<open>True == 1\<close> and \<^verbatim>\<open>False == 0\<close>).
\<close>

fun hashable :: "json \<Rightarrow> bool" where
  "hashable (JArr xs) = False"
| "hashable (JObj kvs) = False"
| "hashable j = True"

fun key_eq :: "json \<Rightarrow> json \<Rightarrow> bool" where
  "key_eq (JBool b) (JNum x) = (x = (if b then 1 else 0))"
| "key_eq (JNum x) (JBool b) = (x = (if b then 1 else 0))"
| "key_eq a b = (a = b)"

fun dedup :: "json list \<Rightarrow> 'cfg LoadedRun list \<Rightarrow> py_exc + 'cfg LoadedRun list" where
  "dedup seen [] = Inr []"
| "dedup seen (run # runs) =
     (if \<not> hashable (l_run_id run) then Inl TypeError
      else if \<not> list_ex (key_eq (l_run_id run)) seen
      then map_sum id (Cons run) (dedup (l_run_id run # seen) runs)
      else dedup seen runs)"

definition sort_started_desc :: "'cfg LoadedRun list \<Rightarrow> py_exc + 'cfg LoadedRun list" where
  "sort_started_desc runs =
     (if list_ex (\<lambda>r. is_aware (l_started_at r)) runs
         \<and> list_ex (\<lambda>r. \<not> is_aware (l_started_at r)) runs
      then Inl TypeError
      else Inr (sort_key (\<lambda>r. - instant (l_started_at r)) runs))"

definition effective_limit :: "'cfg RunManager \<Rightarrow> int option \<Rightarrow> int" where
  "effective_limit m limit =
     (case limit of None \<Rightarrow> max_history m | Some l \<Rightarrow> if l = 0 then max_history m else l)"

definition list_recent_runs ::
  "'cfg domain \<Rightarrow> 'cfg RunManager \<Rightarrow> history_store \<Rightarrow> int option \<Rightarrow> py_exc + 'cfg LoadedRun list" where
  "list_recent_runs lib m store limit =
     (case load_history lib store of
        Inl e \<Rightarrow> Inl e
      | Inr r \<Rightarrow>
          (case sort_started_desc (map loaded_of (dict_values (active_runs m)) @ fst r) of
             Inl e \<Rightarrow> Inl e
           | Inr sorted_runs \<Rightarrow>
               (case dedup [] sorted_runs of
                  Inl e \<Rightarrow> Inl e
                | Inr unique_runs \<Rightarrow>
                    Inr (slice_to (effective_limit m limit) unique_runs))))"

section \<open>The orchestrator and the live channel (api.py)\<close>

text \<open>
  The module's globals are the application state: the manager (\<^verbatim>\<open>None\<close> until
  \<^verbatim>\<open>init_managers\<close> runs) and the table of connections. A websocket is a handle.
  \<open>sent\<close> is the log of the messages that were handed to a socket, oldest first, and
  \<open>history\<close> is the content of the manager's history file. Which sockets still accept a
  message is the environment's: \<open>alive ws\<close> says that \<^verbatim>\<open>ws.send_json\<close> and
  \<^verbatim>\<open>ws.send_text\<close> do not raise.
\<close>

type_synonym ws = nat

datatype ws_message =
    JsonMessage string string "(string \<times> string) list"
  | TextMessage string

record 'cfg app =
  run_manager :: "'cfg RunManager option"
  websocket_connections :: "(string \<times> ws list) list"
  sent :: "(ws \<times> ws_message) list"
  history :: history_store

text \<open>
  \<^verbatim>\<open>_send_progress\<close>: \<open>send_all\<close> is the loop over the run's sockets, returning the
  deliveries and the sockets whose send raised; then each of these is removed from the
  run's list (\<^verbatim>\<open>list.remove\<close>: the first occurrence).
\<close>

fun send_all ::
  "(ws \<Rightarrow> bool) \<Rightarrow> ws_message \<Rightarrow> ws list \<Rightarrow> (ws \<times> ws_message) list \<times> ws list" where
  "send_all alive msg [] = ([], [])"
| "send_all alive msg (w # wss) =
     (if alive w then ((w, msg) # fst (send_all alive msg wss), snd (send_all alive msg wss))
      else (fst (send_all alive msg wss), w # snd (send_all alive msg wss)))"

definition send_progress ::
  "(ws \<Rightarrow> bool) \<Rightarrow> 'cfg app \<Rightarrow> string \<Rightarrow> string \<Rightarrow> string \<Rightarrow> 'cfg app" where
  "send_progress alive a rid stage st =
     (case map_of (websocket_connections a) rid of
        None \<Rightarrow> a
      | Some conns \<Rightarrow>
          (case (case run_manager a of None \<Rightarrow> None | Some m \<Rightarrow> get_run m rid) of
             None \<Rightarrow> a
           | Some run \<Rightarrow>
               let message = JsonMessage stage st (progress run);
                   r = send_all alive message conns
               in a\<lparr>sent := sent a @ fst r,
                    websocket_connections :=
                      dict_set rid (foldl (\<lambda>l w. remove1 w l) conns (snd r))
                        (websocket_connections a)\<rparr>))"

text \<open>
  The status normalisation of \<^verbatim>\<open>progress_callback\<close>. Text is a list of 8-bit
  characters (UTF-8): \<open>lower\<close> maps \<^verbatim>\<open>A-Z\<close> to \<^verbatim>\<open>a-z\<close> as \<^verbatim>\<open>str.lower\<close> does on ASCII, and
  \<open>contains sub s\<close> is \<^verbatim>\<open>sub in s\<close>. The keywords are ASCII, and no character beyond
  ASCII lowers to a run of ASCII letters that completes one of them, so the
  classification is that of \<^verbatim>\<open>str.lower\<close> on the decoded text.
\<close>

definition lower_char :: "char \<Rightarrow> char" where
  "lower_char c =
     (case map_of (zip ''ABCDEFGHIJKLMNOPQRSTUVWXYZ'' ''abcdefghijklmnopqrstuvwxyz'') c of
        None \<Rightarrow> c
      | Some l \<Rightarrow> l)"

definition lower :: "string \<Rightarrow> string" where
  "lower s = map lower_char s"

fun starts_with :: "string \<Rightarrow> string \<Rightarrow> bool" where
  "starts_with [] s = True"
| "starts_with (c # cs) [] = False"
| "starts_with (c # cs) (d # ds) = (c = d \<and> starts_with cs ds)"

fun contains :: "string \<Rightarrow> string \<Rightarrow> bool" where
  "contains sub [] = (sub = [])"
| "contains sub (c # cs) = (starts_with sub (c # cs) \<or> contains sub cs)"

definition stage_map :: "(string \<times> string) list" where
  "stage_map =
     [(''fetch'', ''fetch''), (''transcode'', ''transcode''),
      (''transcribe'', ''transcribe''), (''preprocess'', ''preprocess''),
      (''align'', ''preprocess''), (''diarize'', ''diarize''),
      (''deepcast'', ''deepcast''), (''export'', ''export''), (''notion'', ''notion'')]"

definition normalize_stage :: "string \<Rightarrow> string" where
  "normalize_stage step = (case map_of stage_map step of None \<Rightarrow> step | Some s \<Rightarrow> s)"

definition normalize_status :: "string \<Rightarrow> string" where
  "normalize_status st =
     (let status_lower = lower st in
      if contains ''started'' status_lower \<or> contains ''fetching'' status_lower
         \<or> contains ''transcoding'' status_lower \<or> contains ''transcribing'' status_lower
      then ''started''
      else if contains ''completed'' status_lower \<or> contains ''using existing'' status_lower
      then ''completed''
      else if contains ''failed'' status_lower \<or> contains ''error'' status_lower
      then ''failed''
      else ''started'')"

definition normalize :: "string \<Rightarrow> string \<Rightarrow> string \<times> string" where
  "normalize step st = (normalize_stage step, normalize_status st)"

text \<open>
  \<^verbatim>\<open>progress_callback\<close> is defined inside \<^verbatim>\<open>_execute_pipeline\<close>, after its test that the
  manager is there: the branch for \<open>None\<close> is never taken from there.
\<close>

definition progress_callback ::
  "(ws \<Rightarrow> bool) \<Rightarrow> 'cfg app \<Rightarrow> string \<Rightarrow> string \<Rightarrow> string \<Rightarrow> 'cfg app" where
  "progress_callback alive a rid step st =
     (let stage = normalize_stage step;
          normalized_status = normalize_status st;
          a1 = send_progress alive a rid stage normalized_status
      in (case run_manager a1 of
            None \<Rightarrow> a1
          | Some m \<Rightarrow>
              a1\<lparr>run_manager := Some (update_run_progress m rid stage normalized_status)\<rparr>))"

text \<open>
  \<^verbatim>\<open>_execute_pipeline\<close>. The pipeline (\<^verbatim>\<open>AsyncPipelineService(config).execute\<close>) is outside
  the program: one execution is the callbacks it makes, in order, and how the call ends.
  \<^verbatim>\<open>Raised msg\<close> is an exception of class \<^verbatim>\<open>Exception\<close> whose \<^verbatim>\<open>str\<close> is \<open>msg\<close>;
  \<^verbatim>\<open>Cancelled\<close> is \<^verbatim>\<open>asyncio.CancelledError\<close>. \<open>read_json p\<close> is the state of the file at
  path \<open>p\<close>, for the Notion artifact. Of an exception raised inside the manager only the
  class is known: \<open>str_exc\<close> stands for its \<^verbatim>\<open>str\<close>.
\<close>

datatype pipeline_outcome = Returned PipelineResult | Raised string | Cancelled

record pipeline_run =
  callbacks :: "(string \<times> string) list"
  outcome :: pipeline_outcome

definition str_exc :: "py_exc \<Rightarrow> string" where
  "str_exc e =
     (case e of
        RuntimeError \<Rightarrow> ''RuntimeError'' | OSError \<Rightarrow> ''OSError''
      | JSONDecodeError \<Rightarrow> ''JSONDecodeError'' | TypeError \<Rightarrow> ''TypeError''
      | KeyError \<Rightarrow> ''KeyError'' | ValueError \<Rightarrow> ''ValueError''
      | AttributeError \<Rightarrow> ''AttributeError'')"

text \<open>
  The Notion step. \<^verbatim>\<open>notion_file.exists()\<close> stands outside the inner \<^verbatim>\<open>try\<close>: when it
  raises, the exception goes to the handlers of \<^verbatim>\<open>_execute_pipeline\<close>. Inside the
  \<^verbatim>\<open>try\<close>, whatever \<^verbatim>\<open>read_text\<close>, \<^verbatim>\<open>json.loads\<close> or \<^verbatim>\<open>.get\<close> raise is passed over.
  \<^verbatim>\<open>notion_data.get("url") or notion_data.get("page_url")\<close> is the first of the two that is
  true, and any true value is stored.
\<close>

definition notion_url_of :: "history_store \<Rightarrow> json option" where
  "notion_url_of file =
     (case file of
        Json (JObj d) \<Rightarrow>
          (let u = (if truthy (dict_get d ''url'' JNull) then dict_get d ''url'' JNull
                    else dict_get d ''page_url'' JNull)
           in if truthy u then Some u else None)
      | _ \<Rightarrow> None)"

definition extract_notion_url ::
  "(string \<Rightarrow> history_store) \<Rightarrow> 'cfg RunManager \<Rightarrow> string \<Rightarrow> PipelineResult \<Rightarrow>
   py_exc + 'cfg RunManager" where
  "extract_notion_url read_json m rid res =
     (case map_of (artifacts res) ''notion'' of
        None \<Rightarrow> Inr m
      | Some p \<Rightarrow>
          if p = [] then Inr m
          else if read_json p = Inaccessible then Inl OSError
          else if read_json p = NoFile then Inr m
          else (case notion_url_of (read_json p) of
                  None \<Rightarrow> Inr m
                | Some url \<Rightarrow> Inr (set_notion_url m rid url)))"

text \<open>
  \<open>on_exception\<close> is the handler \<^verbatim>\<open>except Exception as e\<close>; \<open>on_returned\<close> is the rest of
  the \<^verbatim>\<open>try\<close> block after the pipeline call has returned.
\<close>

definition on_exception ::
  "(ws \<Rightarrow> bool) \<Rightarrow> 'cfg app \<Rightarrow> 'cfg RunManager \<Rightarrow> string \<Rightarrow> string \<Rightarrow> datetime \<Rightarrow> 'cfg app" where
  "on_exception alive a m rid error_msg now =
     send_progress alive (a\<lparr>run_manager := Some (set_run_error m rid error_msg now)\<rparr>)
       rid ''error'' ''failed''"

definition on_returned ::
  "(ws \<Rightarrow> bool) \<Rightarrow> (string \<Rightarrow> history_store) \<Rightarrow> 'cfg domain \<Rightarrow> write_env \<Rightarrow> 'cfg app \<Rightarrow>
   'cfg RunManager \<Rightarrow> string \<Rightarrow> PipelineResult \<Rightarrow> datetime \<Rightarrow> 'cfg app" where
  "on_returned alive read_json lib w a m rid res now =
     (let m1 = set_run_result m rid res now
      in (case extract_notion_url read_json m1 rid res of
            Inl e \<Rightarrow> on_exception alive a m1 rid (str_exc e) now
          | Inr m2 \<Rightarrow>
              (case get_run m2 rid of
                 None \<Rightarrow>
                   send_progress alive (a\<lparr>run_manager := Some m2\<rparr>) rid ''complete''
                     ''completed''
               | Some run \<Rightarrow>
                   (case save_to_history lib w m2 run (history a) of
                      Inl e \<Rightarrow> on_exception alive a m2 rid (str_exc e) now
                    | Inr store \<Rightarrow>
                        send_progress alive (a\<lparr>run_manager := Some m2, history := store\<rparr>)
                          rid ''complete'' ''completed''))))"

definition execute_pipeline ::
  "(ws \<Rightarrow> bool) \<Rightarrow> (string \<Rightarrow> history_store) \<Rightarrow> 'cfg domain \<Rightarrow> write_env \<Rightarrow> 'cfg app \<Rightarrow>
   string \<Rightarrow> pipeline_run \<Rightarrow> datetime \<Rightarrow> 'cfg app" where
  "execute_pipeline alive read_json lib w a rid prun now =
     (case run_manager a of
        None \<Rightarrow> a
      | Some m \<Rightarrow>
          (case get_run m rid of
             None \<Rightarrow> a
           | Some run0 \<Rightarrow>
               let a1 = a\<lparr>run_manager := Some (update_run_status m rid ''running'' now)\<rparr>;
                   a2 = send_progress alive a1 rid ''fetch'' ''started'';
                   a3 = foldl (\<lambda>b cb. progress_callback alive b rid (fst cb) (snd cb)) a2
                          (callbacks prun)
               in (case run_manager a3 of
                     None \<Rightarrow> a3
                   | Some m3 \<Rightarrow>
                       (case outcome prun of
                          Returned res \<Rightarrow> on_returned alive read_json lib w a3 m3 rid res now
                        | Cancelled \<Rightarrow>
                            send_progress alive
                              (a3\<lparr>run_manager :=
                                    Some (update_run_status m3 rid ''canceled'' now)\<rparr>)
                              rid ''canceled'' ''canceled''
                        | Raised msg \<Rightarrow> on_exception alive a3 m3 rid msg now))))"



text \<open>
  \<^verbatim>\<open>websocket_endpoint\<close>, in its three parts. \<open>websocket_finally\<close> is the \<^verbatim>\<open>finally\<close> block
  (\<^verbatim>\<open>list.remove\<close> raises \<^verbatim>\<open>ValueError\<close> for a socket that is not in the list);
  \<open>websocket_open\<close> runs from \<^verbatim>\<open>accept\<close> to the start of the receive loop, and ends in the
  \<^verbatim>\<open>finally\<close> block when the snapshot cannot be sent; \<open>websocket_receive\<close> is one round of
  the loop for a text that arrived.
\<close>

definition websocket_finally :: "'cfg app \<Rightarrow> ws \<Rightarrow> string \<Rightarrow> py_exc + 'cfg app" where
  "websocket_finally a w rid =
     (case map_of (websocket_connections a) rid of
        None \<Rightarrow> Inr a
      | Some conns \<Rightarrow>
          if w \<notin> set conns then Inl ValueError
          else if remove1 w conns = []
          then Inr (a\<lparr>websocket_connections := dict_del rid (websocket_connections a)\<rparr>)
          else Inr (a\<lparr>websocket_connections :=
                        dict_set rid (remove1 w conns) (websocket_connections a)\<rparr>))"

definition websocket_open ::
  "(ws \<Rightarrow> bool) \<Rightarrow> 'cfg app \<Rightarrow> ws \<Rightarrow> string \<Rightarrow> py_exc + 'cfg app" where
  "websocket_open alive a w rid =
     (let conns = (case map_of (websocket_connections a) rid of None \<Rightarrow> [] | Some l \<Rightarrow> l);
          a1 = a\<lparr>websocket_connections :=
                    dict_set rid (conns @ [w]) (websocket_connections a)\<rparr>
      in (case (case run_manager a1 of None \<Rightarrow> None | Some m \<Rightarrow> get_run m rid) of
            None \<Rightarrow> Inr a1
          | Some run \<Rightarrow>
              if alive w
              then Inr (a1\<lparr>sent := sent a1 @
                              [(w, JsonMessage ''connected'' (status run) (progress run))]\<rparr>)
              else websocket_finally a1 w rid))"

definition websocket_receive ::
  "(ws \<Rightarrow> bool) \<Rightarrow> 'cfg app \<Rightarrow> ws \<Rightarrow> string \<Rightarrow> string \<Rightarrow> py_exc + 'cfg app" where
  "websocket_receive alive a w rid data =
     (if data = ''ping''
      then (if alive w then Inr (a\<lparr>sent := sent a @ [(w, TextMessage ''pong'')]\<rparr>)
            else websocket_finally a w rid)
      else Inr a)"

text \<open>The messages handed to one socket, oldest first.\<close>

definition inbox :: "'cfg app \<Rightarrow> ws \<Rightarrow> ws_message list" where
  "inbox a w = map snd (filter (\<lambda>d. fst d = w) (sent a))"

text \<open>The run as the route \<^verbatim>\<open>GET /api/runs/{run_id}\<close> finds it.\<close>

definition app_get_run :: "'cfg app \<Rightarrow> string \<Rightarrow> 'cfg RunState option" where
  "app_get_run a rid = (case run_manager a of None \<Rightarrow> None | Some m \<Rightarrow> get_run m rid)"

section \<open>Concrete states for the examples\<close>

definition run_at :: "string \<Rightarrow> string \<Rightarrow> datetime \<Rightarrow> unit RunState" where
  "run_at rid st t =
     \<lparr>run_id = rid, config = (), status = st, progress = [], result = None, error = None,
      started_at = t, completed_at = None, notion_url = None\<rparr>"

definition manager_of :: "int \<Rightarrow> int \<Rightarrow> unit RunState list \<Rightarrow> unit RunManager" where
  "manager_of mc mh runs =
     \<lparr>history_file = ''history.json'', max_concurrent = mc, max_history = mh,
      active_runs = map (\<lambda>r. (run_id r, r)) runs, run_tasks = [], cancelled_tasks = []\<rparr>"

text \<open>
  A domain whose configuration has no fields and whose \<^verbatim>\<open>PipelineResult\<close> is a plain
  dataclass (the path used below, \<^verbatim>\<open>/work\<close>, is the text of its own \<^verbatim>\<open>Path\<close>), with the two
  conversions of \<^verbatim>\<open>datetime\<close> on three texts.
\<close>

definition example_domain :: "unit domain" where
  "example_domain =
     \<lparr>PipelineConfig_new = (\<lambda>j. case j of JObj d \<Rightarrow> Inr () | _ \<Rightarrow> Inl TypeError),
      PipelineResult_new =
        (\<lambda>p s a d e. Inr \<lparr>l_workdir = p, l_steps_completed = s, l_artifacts = a,
                           l_duration = d, l_errors = e\<rparr>),
      fromisoformat =
        (\<lambda>s. if s = ''1970-01-01T00:00:00.000001'' then Inr (Naive 1)
              else if s = ''1970-01-01T00:00:00.000002'' then Inr (Naive 2)
              else if s = ''1970-01-01T00:00:00.000003+00:00'' then Inr (Aware 3 0)
              else Inl ValueError),
      isoformat =
        (\<lambda>t. if t = Naive 1 then ''1970-01-01T00:00:00.000001''
              else if t = Naive 2 then ''1970-01-01T00:00:00.000002''
              else if t = Aware 3 0 then ''1970-01-01T00:00:00.000003+00:00''
              else ''other''),
      asdict = (\<lambda>c. [])\<rparr>"

definition stored_result :: json where
  "stored_result =
     JObj [(''workdir'', JStr ''/work''), (''steps_completed'', JArr [JStr ''fetch'']),
           (''artifacts'', JObj [(''transcript'', JStr ''/work/t.json'')]),
           (''duration'', JNum 2), (''errors'', JArr [])]"

definition stored_run :: "string \<Rightarrow> string \<Rightarrow> string \<Rightarrow> json \<Rightarrow> json" where
  "stored_run rid st t res =
     JObj [(''run_id'', JStr rid), (''config'', JObj []), (''status'', JStr st),
           (''progress'', JObj []), (''result'', res), (''error'', JNull),
           (''started_at'', JStr t), (''completed_at'', JNull), (''notion_url'', JNull)]"

definition example_result :: PipelineResult where
  "example_result =
     \<lparr>workdir = ''/work'', steps_completed = [''fetch''],
      artifacts = [(''transcript'', ''/work/t.json'')], duration = 2, errors = []\<rparr>"

definition loaded_at ::
  "string \<Rightarrow> string \<Rightarrow> py_datetime \<Rightarrow> LoadedResult option \<Rightarrow> unit LoadedRun" where
  "loaded_at rid st t res =
     \<lparr>l_run_id = JStr rid, l_config = (), l_status = JStr st, l_progress = JObj [],
      l_result = res, l_error = JNull, l_started_at = t, l_completed_at = None,
      l_notion_url = JNull\<rparr>"

definition example_app :: "unit RunState list \<Rightarrow> (string \<times> ws list) list \<Rightarrow> unit app" where
  "example_app runs conns =
     \<lparr>run_manager = Some (manager_of 1 20 runs), websocket_connections = conns, sent = [],
      history = NoFile\<rparr>"

definition all_alive :: "ws \<Rightarrow> bool" where
  "all_alive w = True"

definition no_files :: "string \<Rightarrow> history_store" where
  "no_files p = NoFile"

section \<open>Dictionaries\<close>

lemma map_of_dict_set: "map_of (dict_set k v d) = (map_of d)(k \<mapsto> v)"
  by (induction d) (auto simp: fun_eq_iff)

lemma dict_set_absent: "map_of d k = None \<Longrightarrow> dict_set k v d = d @ [(k, v)]"
  by (induction d) (auto split: if_splits)

lemma count_dict_set_le:
  "length (filter P (map snd (dict_set k v d))) \<le> Suc (length (filter P (map snd d)))"
  by (induction d) auto

lemma count_dict_set_retire:
  "distinct (map fst d) \<Longrightarrow> map_of d k = Some v \<Longrightarrow> P v \<Longrightarrow> \<not> P v' \<Longrightarrow>
   Suc (length (filter P (map snd (dict_set k v' d)))) = length (filter P (map snd d))"
proof (induction d)
  case Nil
  then show ?case by simp
next
  case (Cons p d)
  show ?case
  proof (cases "fst p = k")
    case True
    with Cons.prems show ?thesis by (cases p) auto
  next
    case False
    with Cons show ?thesis by (cases p) auto
  qed
qed

section \<open>Admission\<close>

lemma active_count_retire:
  assumes "distinct (map fst (active_runs m))" "get_run m rid = Some run"
    "status run \<in> set [''pending'', ''running'']"
    "status run' \<notin> set [''pending'', ''running'']"
    "active_runs m1 = dict_set rid run' (active_runs m)"
  shows "Suc (active_count m1) = active_count m"
  using count_dict_set_retire[of "active_runs m" rid run
      "\<lambda>r. status r \<in> set [''pending'', ''running'']" run'] assms
  by (simp add: active_count_def dict_values_def get_run_def)

lemma create_run_fails_iff:
  "(\<exists>e. create_run m cfg uuid now = Inl e) \<longleftrightarrow> max_concurrent m \<le> int (active_count m)"
  by (simp add: create_run_def Let_def)

lemma create_run_error: "create_run m cfg uuid now = Inl e \<Longrightarrow> e = RuntimeError"
  by (simp add: create_run_def Let_def split: if_splits)

lemma create_run_success:
  assumes "int (active_count m) < max_concurrent m"
  shows "\<exists>m'. create_run m cfg uuid now = Inr (uuid, m')
          \<and> get_run m' uuid =
              Some \<lparr>run_id = uuid, config = cfg, status = ''pending'', progress = [],
                    result = None, error = None, started_at = now, completed_at = None,
                    notion_url = None\<rparr>
          \<and> (\<forall>r. r \<noteq> uuid \<longrightarrow> get_run m' r = get_run m r)
          \<and> (get_run m uuid = None \<longrightarrow>
               active_runs m' = active_runs m @
                 [(uuid, \<lparr>run_id = uuid, config = cfg, status = ''pending'', progress = [],
                    result = None, error = None, started_at = now, completed_at = None,
                    notion_url = None\<rparr>)])
          \<and> max_concurrent m' = max_concurrent m
          \<and> int (active_count m') \<le> max_concurrent m'"
proof -
  let ?r = "\<lparr>run_id = uuid, config = cfg, status = ''pending'', progress = [],
                    result = None, error = None, started_at = now, completed_at = None,
                    notion_url = None\<rparr>"
  let ?m = "m\<lparr>active_runs := dict_set uuid ?r (active_runs m)\<rparr>"
  have c: "create_run m cfg uuid now = Inr (uuid, ?m)"
    using assms by (simp add: create_run_def Let_def)
  have g: "get_run ?m uuid = Some ?r" by (simp add: get_run_def map_of_dict_set)
  have o: "\<forall>r. r \<noteq> uuid \<longrightarrow> get_run ?m r = get_run m r"
    by (simp add: get_run_def map_of_dict_set)
  have f: "get_run m uuid = None \<longrightarrow> active_runs ?m = active_runs m @ [(uuid, ?r)]"
    by (simp add: get_run_def dict_set_absent)
  have "active_count ?m \<le> Suc (active_count m)"
    using count_dict_set_le[of "\<lambda>r. status r \<in> set [''pending'', ''running'']" uuid ?r "active_runs m"]
    by (simp add: active_count_def dict_values_def)
  with assms have n: "int (active_count ?m) \<le> max_concurrent ?m" by simp
  from c g o f n show ?thesis by (intro exI[of _ ?m]) simp
qed

lemma create_run_after_retire:
  assumes "distinct (map fst (active_runs m))" "int (active_count m) \<le> max_concurrent m"
    "get_run m rid = Some run" "status run \<in> set [''pending'', ''running'']"
    "status run' \<notin> set [''pending'', ''running'']"
    "active_runs m1 = dict_set rid run' (active_runs m)"
    "max_concurrent m1 = max_concurrent m"
  shows "\<exists>m'. create_run m1 cfg uuid now = Inr (uuid, m')"
proof -
  have "Suc (active_count m1) = active_count m"
    using assms(1,3,4,5,6) by (rule active_count_retire)
  with assms(2,7) have "int (active_count m1) < max_concurrent m1" by simp
  from create_run_success[OF this] show ?thesis by blast
qed

text \<open>
  Claim C1. \<^verbatim>\<open>create_run\<close> raises (and then it is the capacity error, a \<^verbatim>\<open>RuntimeError\<close>)
  exactly when the number of records whose status is \<^verbatim>\<open>pending\<close> or \<^verbatim>\<open>running\<close> has reached
  \<^verbatim>\<open>max_concurrent\<close>, which is 1 by default. Otherwise it returns the identifier it drew and the registry holds at
  that identifier a record with status \<^verbatim>\<open>pending\<close> and empty progress; every other
  identifier is as before, and an identifier that was not in the registry is a new last
  entry. A successful admission leaves the registry at or below the ceiling. In a registry
  at or below the ceiling, once one active run is made terminal (by \<^verbatim>\<open>update_run_status\<close>
  with a terminal status, \<^verbatim>\<open>cancel_run\<close>, \<^verbatim>\<open>set_run_result\<close> or \<^verbatim>\<open>set_run_error\<close>) the next
  \<^verbatim>\<open>create_run\<close> succeeds.
\<close>

theorem create_run_admission:
  "max_concurrent (RunManager_default path :: 'cfg RunManager) = 1
   \<and> ((\<exists>e. create_run (m :: 'cfg RunManager) cfg uuid now = Inl e)
        \<longleftrightarrow> max_concurrent m \<le> int (active_count m))
   \<and> (\<forall>e. create_run m cfg uuid now = Inl e \<longrightarrow> e = RuntimeError)
   \<and> (int (active_count m) < max_concurrent m \<longrightarrow>
        (\<exists>m'. create_run m cfg uuid now = Inr (uuid, m')
          \<and> get_run m' uuid =
              Some \<lparr>run_id = uuid, config = cfg, status = ''pending'', progress = [],
                    result = None, error = None, started_at = now, completed_at = None,
                    notion_url = None\<rparr>
          \<and> (\<forall>r. r \<noteq> uuid \<longrightarrow> get_run m' r = get_run m r)
          \<and> (get_run m uuid = None \<longrightarrow>
               active_runs m' = active_runs m @
                 [(uuid, \<lparr>run_id = uuid, config = cfg, status = ''pending'', progress = [],
                    result = None, error = None, started_at = now, completed_at = None,
                    notion_url = None\<rparr>)])
          \<and> max_concurrent m' = max_concurrent m
          \<and> int (active_count m') \<le> max_concurrent m'))
   \<and> (distinct (map fst (active_runs m)) \<and> int (active_count m) \<le> max_concurrent m
        \<and> get_run m rid = Some run \<and> status run \<in> set [''pending'', ''running'']
      \<longrightarrow>
        (st \<in> set [''completed'', ''failed'', ''canceled''] \<longrightarrow>
           (\<exists>m'. create_run (update_run_status m rid st t) cfg uuid now = Inr (uuid, m')))
        \<and> (\<exists>m'. create_run (snd (cancel_run m rid t)) cfg uuid now = Inr (uuid, m'))
        \<and> (\<exists>m'. create_run (set_run_result m rid res t) cfg uuid now = Inr (uuid, m'))
        \<and> (\<exists>m'. create_run (set_run_error m rid err t) cfg uuid now = Inr (uuid, m')))"
proof (intro conjI impI allI)
  show "max_concurrent (RunManager_default path :: 'cfg RunManager) = 1"
    by (simp add: RunManager_default_def RunManager_init_def)
  show "(\<exists>e. create_run m cfg uuid now = Inl e) \<longleftrightarrow> max_concurrent m \<le> int (active_count m)"
    by (rule create_run_fails_iff)
next
  fix e assume "create_run m cfg uuid now = Inl e"
  then show "e = RuntimeError" by (rule create_run_error)
next
  assume "int (active_count m) < max_concurrent m"
  then show "\<exists>m'. create_run m cfg uuid now = Inr (uuid, m')
          \<and> get_run m' uuid =
              Some \<lparr>run_id = uuid, config = cfg, status = ''pending'', progress = [],
                    result = None, error = None, started_at = now, completed_at = None,
                    notion_url = None\<rparr>
          \<and> (\<forall>r. r \<noteq> uuid \<longrightarrow> get_run m' r = get_run m r)
          \<and> (get_run m uuid = None \<longrightarrow>
               active_runs m' = active_runs m @
                 [(uuid, \<lparr>run_id = uuid, config = cfg, status = ''pending'', progress = [],
                    result = None, error = None, started_at = now, completed_at = None,
                    notion_url = None\<rparr>)])
          \<and> max_concurrent m' = max_concurrent m
          \<and> int (active_count m') \<le> max_concurrent m'"
    by (rule create_run_success)
next
  assume h: "distinct (map fst (active_runs m)) \<and> int (active_count m) \<le> max_concurrent m
        \<and> get_run m rid = Some run \<and> status run \<in> set [''pending'', ''running'']"
  then have g: "map_of (active_runs m) rid = Some run" by (simp add: get_run_def)
  note r = create_run_after_retire[of m rid run, OF conjunct1[OF h]
      conjunct1[OF conjunct2[OF h]] conjunct1[OF conjunct2[OF conjunct2[OF h]]]
      conjunct2[OF conjunct2[OF conjunct2[OF h]]]]
  {
    assume "st \<in> set [''completed'', ''failed'', ''canceled'']"
    then show "\<exists>m'. create_run (update_run_status m rid st t) cfg uuid now = Inr (uuid, m')"
      using g by (intro r[of "run\<lparr>status := st, completed_at := Some t\<rparr>"])
        (auto simp: update_run_status_def Let_def)
  }
  show "\<exists>m'. create_run (snd (cancel_run m rid t)) cfg uuid now = Inr (uuid, m')"
    using g h by (intro r[of "run\<lparr>status := ''canceled'', completed_at := Some t\<rparr>"])
      (auto simp: cancel_run_def Let_def split: option.splits)
  show "\<exists>m'. create_run (set_run_result m rid res t) cfg uuid now = Inr (uuid, m')"
    using g by (intro r[of "run\<lparr>result := Some res,
        status := (if errors res = [] then ''completed'' else ''failed''),
        completed_at := Some t\<rparr>"]) (auto simp: set_run_result_def)
  show "\<exists>m'. create_run (set_run_error m rid err t) cfg uuid now = Inr (uuid, m')"
    using g by (intro r[of "run\<lparr>error := Some err, status := ''failed'',
        completed_at := Some t\<rparr>"]) (auto simp: set_run_error_def)
qed

theorem create_run_admission_witness:
  "(let m = manager_of 1 20 [run_at ''a'' ''running'' 1] in
      distinct (map fst (active_runs m)) \<and> int (active_count m) \<le> max_concurrent m
      \<and> get_run m ''a'' = Some (run_at ''a'' ''running'' 1)
      \<and> status (run_at ''a'' ''running'' 1) \<in> set [''pending'', ''running'']
      \<and> ''completed'' \<in> set [''completed'', ''failed'', ''canceled'']
      \<and> create_run m () ''b'' 5 = Inl RuntimeError
      \<and> (\<exists>m'. create_run (update_run_status m ''a'' ''completed'' 3) () ''b'' 5 = Inr (''b'', m'))
      \<and> (\<exists>m'. create_run (snd (cancel_run m ''a'' 3)) () ''b'' 5 = Inr (''b'', m')))
   \<and> (let m = manager_of 1 20 [] in
        int (active_count m) < max_concurrent m \<and> get_run m ''b'' = None
        \<and> (\<exists>m'. create_run m () ''b'' 5 = Inr (''b'', m')
              \<and> active_runs m' = [(''b'', run_at ''b'' ''pending'' 5)]))"
  using create_run_admission[where m = "manager_of 1 20 [run_at ''a'' ''running'' 1]"
      and cfg = "()" and uuid = "''b''" and now = 5 and rid = "''a''"
      and run = "run_at ''a'' ''running'' 1" and st = "''completed''" and t = 3
      and path = "''history.json''" and err = "''boom''"
      and res = "\<lparr>workdir = [], steps_completed = [], artifacts = [], duration = 0,
                  errors = []\<rparr>"]
    create_run_admission[where m = "manager_of 1 20 []" and cfg = "()" and uuid = "''b''"
      and now = 5 and rid = "''a''" and run = "run_at ''a'' ''running'' 1"
      and st = "''completed''" and t = 3 and path = "''history.json''" and err = "''boom''"
      and res = "\<lparr>workdir = [], steps_completed = [], artifacts = [], duration = 0,
                  errors = []\<rparr>"]
  by (simp add: manager_of_def run_at_def active_count_def dict_values_def get_run_def
      create_run_def Let_def)

section \<open>Cancellation\<close>



section \<open>Unknown identifiers\<close>

text \<open>
  Claim C10. Called with an identifier that is not in the registry, each of
  \<^verbatim>\<open>update_run_status\<close>, \<^verbatim>\<open>update_run_progress\<close>, \<^verbatim>\<open>set_run_result\<close>, \<^verbatim>\<open>set_run_error\<close> and
  \<^verbatim>\<open>set_notion_url\<close> returns the manager it was given: nothing is raised (none of them has
  a way to fail) and nothing is changed.
\<close>

theorem unknown_run_noop:
  "get_run m rid = None \<Longrightarrow>
     update_run_status m rid st now = m
     \<and> update_run_progress m rid stage st = m
     \<and> set_run_result m rid res now = m
     \<and> set_run_error m rid err now = m
     \<and> set_notion_url m rid url = m"
  by (simp add: get_run_def update_run_status_def update_run_progress_def set_run_result_def
      set_run_error_def set_notion_url_def)

theorem unknown_run_noop_witness:
  "(let m = manager_of 1 20 [run_at ''a'' ''running'' 1] in
      get_run m ''zz'' = None
      \<and> update_run_status m ''zz'' ''failed'' 9 = m
      \<and> update_run_progress m ''zz'' ''fetch'' ''completed'' = m
      \<and> set_run_error m ''zz'' ''boom'' 9 = m
      \<and> set_notion_url m ''zz'' (JStr ''https://notion.so/p'') = m)"
  using unknown_run_noop[of "manager_of 1 20 [run_at ''a'' ''running'' 1]" "''zz''"
      "''failed''" 9 "''fetch''" _ "''boom''" "JStr ''https://notion.so/p''"]
    unknown_run_noop[of "manager_of 1 20 [run_at ''a'' ''running'' 1]" "''zz''"
      "''completed''" 9 "''fetch''"]
  by (simp add: manager_of_def run_at_def get_run_def Let_def)

section \<open>Progress normalisation\<close>

lemma starts_with_iff: "starts_with sub s \<longleftrightarrow> (\<exists>post. s = sub @ post)"
  by (induction sub s rule: starts_with.induct) auto

lemma contains_iff: "contains sub s \<longleftrightarrow> (\<exists>pre post. s = pre @ sub @ post)"
proof (induction s)
  case Nil
  then show ?case by auto
next
  case (Cons c cs)
  show ?case
  proof
    assume "contains sub (c # cs)"
    then consider "starts_with sub (c # cs)" | "contains sub cs" by auto
    then show "\<exists>pre post. c # cs = pre @ sub @ post"
    proof cases
      case 1
      then obtain post where "c # cs = sub @ post" by (auto simp: starts_with_iff)
      then have "c # cs = [] @ sub @ post" by simp
      then show ?thesis by blast
    next
      case 2
      then obtain pre post where "cs = pre @ sub @ post" using Cons.IH by auto
      then have "c # cs = (c # pre) @ sub @ post" by simp
      then show ?thesis by blast
    qed
  next
    assume "\<exists>pre post. c # cs = pre @ sub @ post"
    then obtain pre post where e: "c # cs = pre @ sub @ post" by auto
    show "contains sub (c # cs)"
    proof (cases pre)
      case Nil
      with e have "starts_with sub (c # cs)" by (auto simp: starts_with_iff)
      then show ?thesis by simp
    next
      case (Cons p pre')
      with e have "cs = pre' @ sub @ post" by simp
      then have "contains sub cs" using Cons.IH by auto
      then show ?thesis by simp
    qed
  qed
qed

lemma normalize_status_range:
  "normalize_status st \<in> set [''started'', ''completed'', ''failed'']"
  by (simp add: normalize_status_def Let_def)

lemma send_all_inbox:
  "alive w \<Longrightarrow> map snd (filter (\<lambda>d. fst d = w) (fst (send_all alive msg conns)))
     = replicate (count_list conns w) msg"
  by (induction conns) auto

lemma send_progress_manager: "run_manager (send_progress alive a rid stage st) = run_manager a"
  by (simp add: send_progress_def Let_def split: option.splits)

lemma send_progress_inbox:
  assumes "run_manager a = Some m" "get_run m rid = Some run"
    "map_of (websocket_connections a) rid = Some conns" "alive w"
  shows "inbox (send_progress alive a rid stage st) w
           = inbox a w @ replicate (count_list conns w) (JsonMessage stage st (progress run))"
  using assms by (simp add: send_progress_def inbox_def Let_def send_all_inbox)

lemma progress_callback_manager:
  assumes "run_manager a = Some m"
  shows "run_manager (progress_callback alive a rid step st)
           = Some (update_run_progress m rid (normalize_stage step) (normalize_status st))"
  using assms by (simp add: progress_callback_def Let_def send_progress_manager)

lemma progress_callback_inbox:
  assumes "run_manager a = Some m" "get_run m rid = Some run"
    "map_of (websocket_connections a) rid = Some conns" "alive w"
  shows "inbox (progress_callback alive a rid step st) w
           = inbox a w @ replicate (count_list conns w)
               (JsonMessage (normalize_stage step) (normalize_status st) (progress run))"
proof -
  have "inbox (progress_callback alive a rid step st) w
          = inbox (send_progress alive a rid (normalize_stage step) (normalize_status st)) w"
    using assms(1)
    by (simp add: progress_callback_def Let_def send_progress_manager inbox_def)
  with send_progress_inbox[of a m rid run conns alive w "normalize_stage step" "normalize_status st"] assms
  show ?thesis by simp
qed

lemma update_run_progress_get:
  "get_run m rid = Some run \<Longrightarrow>
   get_run (update_run_progress m rid stage st) rid
     = Some (run\<lparr>progress := dict_set stage st (progress run)\<rparr>)"
  by (simp add: get_run_def update_run_progress_def map_of_dict_set)

text \<open>
  Claim C4. \<open>normalize\<close> is a function of the raw pair alone. The stage goes through the
  static table, an unknown stage unchanged. The status is one of \<^verbatim>\<open>started\<close>,
  \<^verbatim>\<open>completed\<close>, \<^verbatim>\<open>failed\<close>; it depends on the text only up to the case of its letters, is
  decided by which keywords occur in the lowered text as substrings (the keywords of
  \<^verbatim>\<open>started\<close> first, then those of \<^verbatim>\<open>completed\<close>, then those of \<^verbatim>\<open>failed\<close>), and is
  \<^verbatim>\<open>started\<close> when none occurs. The raw callback \<^verbatim>\<open>("align", "Alignment completed
  successfully")\<close> gives \<^verbatim>\<open>("preprocess", "completed")\<close>. One callback is one event: the
  record's progress is updated once with the normalised pair, and a live socket
  subscribed once to the run is handed exactly one message, which carries that pair.
\<close>

theorem progress_normalization:
  "normalize step st = (normalize_stage step, normalize_status st)
   \<and> normalize_status st \<in> set [''started'', ''completed'', ''failed'']
   \<and> (normalize_stage step = (case map_of stage_map step of None \<Rightarrow> step | Some s \<Rightarrow> s))
   \<and> (lower st = lower st' \<longrightarrow> normalize step st = normalize step st')
   \<and> (contains sub s \<longleftrightarrow> (\<exists>pre post. s = pre @ sub @ post))
   \<and> (normalize_status st = ''completed'' \<longleftrightarrow>
        \<not> (\<exists>k \<in> set [''started'', ''fetching'', ''transcoding'', ''transcribing''].
              contains k (lower st))
        \<and> (\<exists>k \<in> set [''completed'', ''using existing'']. contains k (lower st)))
   \<and> (normalize_status st = ''failed'' \<longleftrightarrow>
        \<not> (\<exists>k \<in> set [''started'', ''fetching'', ''transcoding'', ''transcribing'',
                       ''completed'', ''using existing'']. contains k (lower st))
        \<and> (\<exists>k \<in> set [''failed'', ''error'']. contains k (lower st)))
   \<and> (\<not> (\<exists>k \<in> set [''started'', ''fetching'', ''transcoding'', ''transcribing'',
                       ''completed'', ''using existing'', ''failed'', ''error''].
             contains k (lower st))
        \<longrightarrow> normalize_status st = ''started'')
   \<and> normalize ''align'' ''Alignment completed successfully'' = (''preprocess'', ''completed'')
   \<and> (run_manager a = Some m \<and> get_run m rid = Some run \<longrightarrow>
        run_manager (progress_callback alive a rid step st)
          = Some (update_run_progress m rid (fst (normalize step st)) (snd (normalize step st)))
        \<and> get_run (update_run_progress m rid (fst (normalize step st)) (snd (normalize step st))) rid
          = Some (run\<lparr>progress :=
                        dict_set (fst (normalize step st)) (snd (normalize step st))
                          (progress run)\<rparr>)
        \<and> (map_of (websocket_connections a) rid = Some conns \<and> alive w \<longrightarrow>
             inbox (progress_callback alive a rid step st) w
               = inbox a w @ replicate (count_list conns w)
                   (JsonMessage (fst (normalize step st)) (snd (normalize step st))
                      (progress run))))"
proof (intro conjI impI)
  show "normalize step st = (normalize_stage step, normalize_status st)"
    by (simp add: normalize_def)
  show "normalize_status st \<in> set [''started'', ''completed'', ''failed'']"
    by (rule normalize_status_range)
  show "normalize_stage step = (case map_of stage_map step of None \<Rightarrow> step | Some s \<Rightarrow> s)"
    by (simp add: normalize_stage_def)
  show "contains sub s \<longleftrightarrow> (\<exists>pre post. s = pre @ sub @ post)" by (rule contains_iff)
  show "normalize_status st = ''completed'' \<longleftrightarrow>
        \<not> (\<exists>k \<in> set [''started'', ''fetching'', ''transcoding'', ''transcribing''].
              contains k (lower st))
        \<and> (\<exists>k \<in> set [''completed'', ''using existing'']. contains k (lower st))"
    unfolding normalize_status_def Let_def
    by (simp del: contains.simps starts_with.simps)
  show "normalize_status st = ''failed'' \<longleftrightarrow>
        \<not> (\<exists>k \<in> set [''started'', ''fetching'', ''transcoding'', ''transcribing'',
                       ''completed'', ''using existing'']. contains k (lower st))
        \<and> (\<exists>k \<in> set [''failed'', ''error'']. contains k (lower st))"
    unfolding normalize_status_def Let_def
    by (simp del: contains.simps starts_with.simps)
  show "normalize ''align'' ''Alignment completed successfully'' = (''preprocess'', ''completed'')"
    by (simp add: normalize_def normalize_stage_def stage_map_def normalize_status_def
        lower_def lower_char_def Let_def)
next
  assume "lower st = lower st'"
  then show "normalize step st = normalize step st'"
    by (simp add: normalize_def normalize_status_def)
next
  assume "\<not> (\<exists>k \<in> set [''started'', ''fetching'', ''transcoding'', ''transcribing'',
                       ''completed'', ''using existing'', ''failed'', ''error''].
             contains k (lower st))"
  then show "normalize_status st = ''started''"
    unfolding normalize_status_def Let_def
    by (simp del: contains.simps starts_with.simps)
next
  assume h: "run_manager a = Some m \<and> get_run m rid = Some run"
  then show "run_manager (progress_callback alive a rid step st)
          = Some (update_run_progress m rid (fst (normalize step st)) (snd (normalize step st)))"
    by (simp add: progress_callback_manager normalize_def)
  from h show "get_run (update_run_progress m rid (fst (normalize step st)) (snd (normalize step st))) rid
          = Some (run\<lparr>progress :=
                        dict_set (fst (normalize step st)) (snd (normalize step st))
                          (progress run)\<rparr>)"
    by (simp add: update_run_progress_get)
  assume "map_of (websocket_connections a) rid = Some conns \<and> alive w"
  with h show "inbox (progress_callback alive a rid step st) w
               = inbox a w @ replicate (count_list conns w)
                   (JsonMessage (fst (normalize step st)) (snd (normalize step st))
                      (progress run))"
    by (simp add: progress_callback_inbox normalize_def)
qed

theorem progress_normalization_witness:
  "lower ''Working'' = lower ''WORKING''
   \<and> normalize ''align'' ''Working'' = normalize ''align'' ''WORKING''
   \<and> \<not> (\<exists>k \<in> set [''started'', ''fetching'', ''transcoding'', ''transcribing'',
                       ''completed'', ''using existing'', ''failed'', ''error''].
             contains k (lower ''Working''))
   \<and> normalize_status ''Working'' = ''started''
   \<and> (let m = manager_of 1 20 [run_at ''a'' ''running'' 1];
            a = \<lparr>run_manager = Some m, websocket_connections = [(''a'', [7])], sent = [],
                 history = NoFile\<rparr>
        in run_manager a = Some m \<and> get_run m ''a'' = Some (run_at ''a'' ''running'' 1)
           \<and> map_of (websocket_connections a) ''a'' = Some [7]
           \<and> inbox (progress_callback (\<lambda>w. True) a ''a'' ''align'' ''Working'') 7
               = [JsonMessage ''preprocess'' ''started'' []])"
proof -
  let ?m = "manager_of 1 20 [run_at ''a'' ''running'' 1]"
  let ?a = "\<lparr>run_manager = Some ?m, websocket_connections = [(''a'', [7])], sent = [],
             history = NoFile\<rparr> :: unit app"
  note T = progress_normalization[where step = "''align''" and st = "''Working''"
      and st' = "''WORKING''" and a = ?a and m = ?m and rid = "''a''"
      and run = "run_at ''a'' ''running'' 1" and alive = "\<lambda>w. True" and conns = "[7]"
      and w = 7]
  note c1 = T[THEN conjunct1]
  note c3 = T[THEN conjunct2, THEN conjunct2, THEN conjunct1]
  note c4 = T[THEN conjunct2, THEN conjunct2, THEN conjunct2, THEN conjunct1]
  note c8 = T[THEN conjunct2, THEN conjunct2, THEN conjunct2, THEN conjunct2, THEN conjunct2,
      THEN conjunct2, THEN conjunct2, THEN conjunct1]
  note c10 = T[THEN conjunct2, THEN conjunct2, THEN conjunct2, THEN conjunct2, THEN conjunct2,
      THEN conjunct2, THEN conjunct2, THEN conjunct2, THEN conjunct2]
  have l: "lower ''Working'' = lower ''WORKING''"
    by (simp add: lower_def lower_char_def)
  have w: "\<not> (\<exists>k \<in> set [''started'', ''fetching'', ''transcoding'', ''transcribing'',
                       ''completed'', ''using existing'', ''failed'', ''error''].
             contains k (lower ''Working''))"
    by (simp add: lower_def lower_char_def)
  have n2: "normalize ''align'' ''Working'' = normalize ''align'' ''WORKING''"
    using c4 l by (rule mp)
  have n3: "normalize_status ''Working'' = ''started''"
    using c8 w by (rule mp)
  have st: "normalize_stage ''align'' = ''preprocess''"
    using c3 by (simp add: stage_map_def)
  have g: "run_manager ?a = Some ?m \<and> get_run ?m ''a'' = Some (run_at ''a'' ''running'' 1)"
    by (simp add: get_run_def manager_of_def run_at_def)
  have k: "map_of (websocket_connections ?a) ''a'' = Some [7] \<and> (\<lambda>w. True) (7::nat)"
    by simp
  have i0: "inbox ?a 7 = []" by (simp add: inbox_def)
  have p: "progress (run_at ''a'' ''running'' 1) = []" by (simp add: run_at_def)
  have "inbox (progress_callback (\<lambda>w. True) ?a ''a'' ''align'' ''Working'') 7
          = inbox ?a 7 @ replicate (count_list [7::nat] 7)
              (JsonMessage (fst (normalize ''align'' ''Working''))
                 (snd (normalize ''align'' ''Working''))
                 (progress (run_at ''a'' ''running'' 1)))"
    using c10[THEN mp, OF g, THEN conjunct2, THEN conjunct2, THEN mp, OF k] .
  then have i: "inbox (progress_callback (\<lambda>w. True) ?a ''a'' ''align'' ''Working'') 7
          = [JsonMessage ''preprocess'' ''started'' []]"
    by (simp add: i0 p c1 n3 st)
  from l n2 w n3 g k i show ?thesis by (simp only: Let_def simp_thms)
qed

section \<open>The effect of the mutators on a record\<close>

lemma set_run_result_get:
  "get_run m rid = Some run \<Longrightarrow>
   get_run (set_run_result m rid res now) rid
     = Some (run\<lparr>result := Some res,
                  status := (if errors res = [] then ''completed'' else ''failed''),
                  completed_at := Some now\<rparr>)"
  by (simp add: get_run_def set_run_result_def map_of_dict_set)

lemma set_run_error_get:
  "get_run m rid = Some run \<Longrightarrow>
   get_run (set_run_error m rid err now) rid
     = Some (run\<lparr>error := Some err, status := ''failed'', completed_at := Some now\<rparr>)"
  by (simp add: get_run_def set_run_error_def map_of_dict_set)

lemma update_run_status_get:
  "get_run m rid = Some run \<Longrightarrow>
   get_run (update_run_status m rid st now) rid
     = Some (if st \<in> set [''completed'', ''failed'', ''canceled'']
             then run\<lparr>status := st, completed_at := Some now\<rparr> else run\<lparr>status := st\<rparr>)"
  by (simp add: get_run_def update_run_status_def map_of_dict_set Let_def)

lemma set_notion_url_get:
  "get_run m rid = Some run \<Longrightarrow>
   get_run (set_notion_url m rid url) rid = Some (run\<lparr>notion_url := Some url\<rparr>)"
  by (simp add: get_run_def set_notion_url_def map_of_dict_set)

lemma callbacks_keep_run:
  assumes "run_manager a = Some m" "get_run m rid = Some run"
  shows "\<exists>m' p. run_manager (foldl (\<lambda>b cb. progress_callback alive b rid (fst cb) (snd cb)) a cbs)
                 = Some m'
               \<and> get_run m' rid = Some (run\<lparr>progress := p\<rparr>)"
  using assms
proof (induction cbs arbitrary: a m run)
  case Nil
  have "get_run m rid = Some (run\<lparr>progress := progress run\<rparr>)" using Nil by simp
  with Nil(1) show ?case by (intro exI[of _ m] exI[of _ "progress run"]) simp
next
  case (Cons cb cbs)
  let ?a = "progress_callback alive a rid (fst cb) (snd cb)"
  let ?m = "update_run_progress m rid (normalize_stage (fst cb)) (normalize_status (snd cb))"
  let ?r = "run\<lparr>progress := dict_set (normalize_stage (fst cb)) (normalize_status (snd cb))
                               (progress run)\<rparr>"
  have 1: "run_manager ?a = Some ?m" using Cons.prems(1) by (rule progress_callback_manager)
  have 2: "get_run ?m rid = Some ?r" using Cons.prems(2) by (rule update_run_progress_get)
  from Cons.IH[OF 1 2] show ?case by auto
qed

section \<open>Loading the history\<close>

lemma load_items_fst:
  "fst (load_items lib items) =
     concat (map (\<lambda>it. case dict_to_run_state lib it of Inl e \<Rightarrow> [] | Inr r \<Rightarrow> [r]) items)"
  by (induction items) (auto split: sum.splits)

lemma load_items_snd:
  "snd (load_items lib items) =
     concat (map (\<lambda>it. case dict_to_run_state lib it of
                          Inl e \<Rightarrow> [Warning ''Failed to load run from history'' e]
                        | Inr r \<Rightarrow> []) items)"
  by (induction items) (auto split: sum.splits)

lemma load_history_accessible:
  "store \<noteq> Inaccessible \<Longrightarrow> \<exists>hist warnings. load_history lib store = Inr (hist, warnings)"
  by (cases "load_history_body lib store") (auto simp: load_history_def)

lemma load_history_raises_iff:
  "(\<exists>e. load_history lib store = Inl e) \<longleftrightarrow> store = Inaccessible"
  using load_history_accessible[of store lib] by (auto simp: load_history_def)

lemma stored_run_loads:
  "dict_to_run_state example_domain (stored_run rid st ''1970-01-01T00:00:00.000001'' JNull)
     = Inr (loaded_at rid st (Naive 1) None)"
  "dict_to_run_state example_domain (stored_run rid st ''1970-01-01T00:00:00.000002'' JNull)
     = Inr (loaded_at rid st (Naive 2) None)"
  "dict_to_run_state example_domain
     (stored_run rid st ''1970-01-01T00:00:00.000001'' stored_result)
     = Inr (loaded_at rid st (Naive 1)
              (Some (loaded_result_of example_result)))"
  by (simp_all add: dict_to_run_state_def stored_run_def example_domain_def dict_get_def
      dict_item_def parse_time_def parse_result_def loaded_at_def stored_result_def
      loaded_result_of_def example_result_def str_items_def)

lemma loaded_of_run_at: "loaded_of (run_at rid st t) = loaded_at rid st (Naive t) None"
  by (simp add: loaded_of_def run_at_def loaded_at_def str_items_def opt_str_def)



text \<open>
  Claim C7, against the code. The claim is that loading the history never raises to the
  caller. \<^verbatim>\<open>_load_history\<close> tests \<^verbatim>\<open>self.history_file.exists()\<close> before it enters its
  \<^verbatim>\<open>try\<close>: for a history path whose \<^verbatim>\<open>stat\<close> fails with an error other than "no such
  file" (a directory on the path that may not be searched), \<^verbatim>\<open>exists()\<close> raises and the
  exception reaches the caller. Every failure inside the \<^verbatim>\<open>try\<close> is handled as the claim
  says: a file that cannot be read or is not JSON gives the empty list with one warning,
  a missing file the empty list, and of a file with one well-formed record and one
  without \<^verbatim>\<open>started_at\<close> the well-formed one is returned, with one warning.
\<close>

theorem load_history_exists_raises:
  "load_history lib Inaccessible = Inl OSError
   \<and> load_history lib Unreadable = Inr ([], [Warning ''Failed to load history'' OSError])
   \<and> load_history lib NotJson = Inr ([], [Warning ''Failed to load history'' JSONDecodeError])
   \<and> load_history lib NoFile = Inr ([], [])
   \<and> load_history example_domain
        (Json (JArr [stored_run ''a'' ''completed'' ''1970-01-01T00:00:00.000001'' JNull,
                     JObj [(''run_id'', JStr ''b'')]]))
       = Inr ([loaded_at ''a'' ''completed'' (Naive 1) None],
              [Warning ''Failed to load run from history'' KeyError])"
proof -
  have "dict_to_run_state example_domain (JObj [(''run_id'', JStr ''b'')]) = Inl KeyError"
    by (simp add: dict_to_run_state_def example_domain_def dict_get_def dict_item_def)
  then show ?thesis
    by (simp add: load_history_def load_history_body_def stored_run_loads)
qed

section \<open>Appending to the history\<close>









section \<open>The end of a pipeline call\<close>

lemma send_progress_history: "history (send_progress alive a rid stage st) = history a"
  by (simp add: send_progress_def Let_def split: option.splits)

lemma progress_callback_history:
  "history (progress_callback alive a rid step st) = history a"
  by (simp add: progress_callback_def Let_def send_progress_history split: option.splits)

lemma callbacks_history:
  "history (foldl (\<lambda>b cb. progress_callback alive b rid (fst cb) (snd cb)) a cbs) = history a"
  by (induction cbs arbitrary: a) (simp_all add: progress_callback_history)

lemma extract_notion_url_get:
  assumes "get_run m rid = Some run" "extract_notion_url read_json m rid res = Inr m2"
  shows "\<exists>u. get_run m2 rid = Some (run\<lparr>notion_url := u\<rparr>)"
proof -
  from assms(2) have "m2 = m \<or> (\<exists>url. m2 = set_notion_url m rid url)"
    by (auto simp: extract_notion_url_def split: option.splits if_splits)
  then show ?thesis
  proof
    assume "m2 = m"
    with assms(1) have "get_run m2 rid = Some (run\<lparr>notion_url := notion_url run\<rparr>)" by simp
    then show ?thesis by (rule exI)
  next
    assume "\<exists>url. m2 = set_notion_url m rid url"
    then obtain url where "m2 = set_notion_url m rid url" by blast
    with set_notion_url_get[OF assms(1), of url]
    have "get_run m2 rid = Some (run\<lparr>notion_url := Some url\<rparr>)" by simp
    then show ?thesis by (rule exI)
  qed
qed

lemma extract_notion_url_returns:
  assumes "\<forall>p. map_of (artifacts res) ''notion'' = Some p \<longrightarrow> read_json p \<noteq> Inaccessible"
  shows "\<exists>m2. extract_notion_url read_json m rid res = Inr m2"
  using assms by (auto simp: extract_notion_url_def split: option.splits)

lemma save_to_history_returns:
  assumes "store \<noteq> Inaccessible" "\<forall>r. dumpable lib r"
  shows "\<exists>store'. save_to_history lib Writes m run store = Inr store'"
proof -
  from load_history_accessible[OF assms(1), of lib] obtain hist warnings
    where "load_history lib store = Inr (hist, warnings)" by blast
  moreover have "list_all (dumpable lib) runs" for runs
    using assms(2) by (simp add: list_all_iff)
  ultimately show ?thesis by (simp add: save_to_history_def save_history_def)
qed

lemma save_to_history_raises:
  assumes "w \<noteq> Writes"
  shows "\<exists>e. save_to_history lib w m run store = Inl e"
proof (cases "load_history lib store")
  case (Inl e)
  then show ?thesis by (simp add: save_to_history_def)
next
  case (Inr r)
  from assms have "w = MkdirRaises \<or> w = WriteRaises" by (cases w) simp_all
  with Inr show ?thesis by (auto simp: save_to_history_def save_history_def)
qed

lemma on_exception_run:
  assumes "get_run m rid = Some run"
  shows "app_get_run (on_exception alive a m rid msg now) rid
           = Some (run\<lparr>error := Some msg, status := ''failed'', completed_at := Some now\<rparr>)"
  using set_run_error_get[OF assms, of msg now]
  by (simp add: on_exception_def app_get_run_def send_progress_manager)

lemma on_returned_saved:
  assumes "get_run m rid = Some run"
    and "\<forall>p. map_of (artifacts res) ''notion'' = Some p \<longrightarrow> read_json p \<noteq> Inaccessible"
    and "history a \<noteq> Inaccessible" "\<forall>r. dumpable lib r"
  shows "\<exists>u. app_get_run (on_returned alive read_json lib Writes a m rid res now) rid
               = Some (run\<lparr>result := Some res,
                            status := (if errors res = [] then ''completed'' else ''failed''),
                            completed_at := Some now, notion_url := u\<rparr>)"
proof -
  let ?m1 = "set_run_result m rid res now"
  let ?r1 = "run\<lparr>result := Some res,
                  status := (if errors res = [] then ''completed'' else ''failed''),
                  completed_at := Some now\<rparr>"
  have 1: "get_run ?m1 rid = Some ?r1" using assms(1) by (rule set_run_result_get)
  from extract_notion_url_returns[OF assms(2), of ?m1 rid] obtain m2
    where 2: "extract_notion_url read_json ?m1 rid res = Inr m2" by blast
  from extract_notion_url_get[OF 1 2] obtain u
    where 3: "get_run m2 rid = Some (?r1\<lparr>notion_url := u\<rparr>)" by blast
  from save_to_history_returns[OF assms(3,4), of m2 "?r1\<lparr>notion_url := u\<rparr>"] obtain store'
    where 4: "save_to_history lib Writes m2 (?r1\<lparr>notion_url := u\<rparr>) (history a) = Inr store'"
    by blast
  have 5: "app_get_run (on_returned alive read_json lib Writes a m rid res now) rid
          = Some (?r1\<lparr>notion_url := u\<rparr>)"
    unfolding on_returned_def Let_def app_get_run_def
    by (simp only: 2 3 4 sum.case option.case send_progress_manager) (simp add: 3)
  show ?thesis by (intro exI[of _ u]) (rule 5)
qed

lemma on_returned_write_raises:
  assumes "get_run m rid = Some run"
    and "\<forall>p. map_of (artifacts res) ''notion'' = Some p \<longrightarrow> read_json p \<noteq> Inaccessible"
    and "w \<noteq> Writes"
  shows "\<exists>u msg. app_get_run (on_returned alive read_json lib w a m rid res now) rid
               = Some (run\<lparr>result := Some res, completed_at := Some now, notion_url := u,
                            error := Some msg, status := ''failed''\<rparr>)"
proof -
  let ?m1 = "set_run_result m rid res now"
  let ?r1 = "run\<lparr>result := Some res,
                  status := (if errors res = [] then ''completed'' else ''failed''),
                  completed_at := Some now\<rparr>"
  have 1: "get_run ?m1 rid = Some ?r1" using assms(1) by (rule set_run_result_get)
  from extract_notion_url_returns[OF assms(2), of ?m1 rid] obtain m2
    where 2: "extract_notion_url read_json ?m1 rid res = Inr m2" by blast
  from extract_notion_url_get[OF 1 2] obtain u
    where 3: "get_run m2 rid = Some (?r1\<lparr>notion_url := u\<rparr>)" by blast
  from save_to_history_raises[OF assms(3), of lib m2 "?r1\<lparr>notion_url := u\<rparr>" "history a"]
  obtain e where 4: "save_to_history lib w m2 (?r1\<lparr>notion_url := u\<rparr>) (history a) = Inl e"
    by blast
  have "on_returned alive read_json lib w a m rid res now
          = on_exception alive a m2 rid (str_exc e) now"
    unfolding on_returned_def Let_def
    by (simp only: 2 3 4 sum.case option.case)
  with on_exception_run[OF 3, of alive a "str_exc e" now]
  have 6: "app_get_run (on_returned alive read_json lib w a m rid res now) rid
               = Some (run\<lparr>result := Some res, completed_at := Some now, notion_url := u,
                            error := Some (str_exc e), status := ''failed''\<rparr>)"
    by simp
  show ?thesis by (intro exI[of _ u] exI[of _ "str_exc e"]) (rule 6)
qed

lemma execute_pipeline_before_outcome:
  assumes "run_manager a = Some m" "get_run m rid = Some run"
  shows "\<exists>a3 m3 p. run_manager a3 = Some m3 \<and> history a3 = history a
           \<and> get_run m3 rid = Some (run\<lparr>status := ''running'', progress := p\<rparr>)
           \<and> execute_pipeline alive read_json lib w a rid \<lparr>callbacks = cbs, outcome = oc\<rparr> now
               = (case oc of
                    Returned res \<Rightarrow> on_returned alive read_json lib w a3 m3 rid res now
                  | Cancelled \<Rightarrow>
                      send_progress alive
                        (a3\<lparr>run_manager := Some (update_run_status m3 rid ''canceled'' now)\<rparr>)
                        rid ''canceled'' ''canceled''
                  | Raised msg \<Rightarrow> on_exception alive a3 m3 rid msg now)"
proof -
  let ?m1 = "update_run_status m rid ''running'' now"
  let ?a2 = "send_progress alive (a\<lparr>run_manager := Some ?m1\<rparr>) rid ''fetch'' ''started''"
  let ?a3 = "foldl (\<lambda>b cb. progress_callback alive b rid (fst cb) (snd cb)) ?a2 cbs"
  have 1: "get_run ?m1 rid = Some (run\<lparr>status := ''running''\<rparr>)"
    using update_run_status_get[OF assms(2), of "''running''" now] by simp
  have 2: "run_manager ?a2 = Some ?m1" by (simp add: send_progress_manager)
  have h2: "history ?a2 = history a" by (simp add: send_progress_history)
  have h3: "history ?a3 = history a" by (simp add: callbacks_history h2)
  from callbacks_keep_run[OF 2 1, of alive cbs] obtain m3 p
    where 3: "run_manager ?a3 = Some m3"
      and 4: "get_run m3 rid = Some (run\<lparr>status := ''running'', progress := p\<rparr>)"
    by auto
  have "execute_pipeline alive read_json lib w a rid \<lparr>callbacks = cbs, outcome = oc\<rparr> now
               = (case oc of
                    Returned res \<Rightarrow> on_returned alive read_json lib w ?a3 m3 rid res now
                  | Cancelled \<Rightarrow>
                      send_progress alive
                        (?a3\<lparr>run_manager := Some (update_run_status m3 rid ''canceled'' now)\<rparr>)
                        rid ''canceled'' ''canceled''
                  | Raised msg \<Rightarrow> on_exception alive ?a3 m3 rid msg now)"
    using assms 3 by (simp add: execute_pipeline_def Let_def)
  with 3 4 h3 show ?thesis by blast
qed

text \<open>
  Claim C5, as stated, fails. The claim is that a returned result with an empty error
  list makes the run \<^verbatim>\<open>completed\<close>. After \<^verbatim>\<open>set_run_result\<close> the \<^verbatim>\<open>try\<close> block of
  \<^verbatim>\<open>_execute_pipeline\<close> goes on to write the history, and its handler
  \<^verbatim>\<open>except Exception\<close> covers that write too: when the history file cannot be written, a
  run whose result has no errors ends \<^verbatim>\<open>failed\<close>, with the result stored.
\<close>

theorem pipeline_outcome_status_counterexample:
  "errors example_result = []
   \<and> map_option status
        (app_get_run
           (execute_pipeline all_alive no_files example_domain WriteRaises
              (example_app [run_at ''a'' ''pending'' 1] []) ''a''
              \<lparr>callbacks = [], outcome = Returned example_result\<rparr> 9) ''a'')
       = Some ''failed''
   \<and> map_option result
        (app_get_run
           (execute_pipeline all_alive no_files example_domain WriteRaises
              (example_app [run_at ''a'' ''pending'' 1] []) ''a''
              \<lparr>callbacks = [], outcome = Returned example_result\<rparr> 9) ''a'')
       = Some (Some example_result)"
proof -
  let ?a = "example_app [run_at ''a'' ''pending'' 1] []"
  let ?m = "manager_of 1 20 [run_at ''a'' ''pending'' 1]"
  have h: "run_manager ?a = Some ?m" "get_run ?m ''a'' = Some (run_at ''a'' ''pending'' 1)"
    by (simp_all add: example_app_def manager_of_def get_run_def run_at_def)
  have n: "\<forall>p. map_of (artifacts example_result) ''notion'' = Some p
             \<longrightarrow> no_files p \<noteq> Inaccessible"
    by (simp add: no_files_def)
  from execute_pipeline_before_outcome[OF h, of all_alive no_files example_domain WriteRaises
      "[]" "Returned example_result" 9]
  obtain a3 m3 p
    where 1: "get_run m3 ''a'' = Some (run_at ''a'' ''pending'' 1\<lparr>status := ''running'', progress := p\<rparr>)"
      and 2: "execute_pipeline all_alive no_files example_domain WriteRaises ?a ''a''
                \<lparr>callbacks = [], outcome = Returned example_result\<rparr> 9
              = on_returned all_alive no_files example_domain WriteRaises a3 m3 ''a''
                  example_result 9"
    by auto
  from on_returned_write_raises[OF 1 n, of WriteRaises all_alive example_domain a3 9]
  obtain u msg
    where 3: "app_get_run (on_returned all_alive no_files example_domain WriteRaises a3 m3 ''a''
                 example_result 9) ''a''
               = Some (run_at ''a'' ''pending'' 1
                         \<lparr>status := ''running'', progress := p, result := Some example_result,
                            completed_at := Some 9, notion_url := u,
                            error := Some msg, status := ''failed''\<rparr>)"
    by auto
  have e: "errors example_result = []" by (simp add: example_result_def)
  show ?thesis by (simp add: 2 3 e)
qed

text \<open>
  Claim C5, amended. \<^verbatim>\<open>set_run_result\<close> stores the result, sets \<^verbatim>\<open>completed_at\<close> and makes the status
  \<^verbatim>\<open>completed\<close> when the result's error list is empty and \<^verbatim>\<open>failed\<close> when it is not;
  \<^verbatim>\<open>set_run_error\<close> makes the status \<^verbatim>\<open>failed\<close> and records the message. \<^verbatim>\<open>_execute_pipeline\<close>
  on a registered run: when the pipeline call returns a result and the steps after it
  raise nothing (the Notion artifact and the history file can be looked up, the history
  file is written, every configuration can be dumped), the run ends \<^verbatim>\<open>completed\<close> exactly
  when the error list is empty and \<^verbatim>\<open>failed\<close> exactly when it is not, with the result
  stored, \<^verbatim>\<open>completed_at\<close> set and the error field untouched; when the history file cannot
  be written, the run ends \<^verbatim>\<open>failed\<close> with an error message, whatever the error list, the
  result still stored; when the call raises an exception, the run ends \<^verbatim>\<open>failed\<close> with
  the exception's message as its error.
\<close>

theorem pipeline_outcome_status:
  "(get_run m rid = Some run \<longrightarrow>
      get_run (set_run_result m rid res now) rid
        = Some (run\<lparr>result := Some res,
                     status := (if errors res = [] then ''completed'' else ''failed''),
                     completed_at := Some now\<rparr>)
      \<and> get_run (set_run_error m rid msg now) rid
        = Some (run\<lparr>error := Some msg, status := ''failed'', completed_at := Some now\<rparr>))
   \<and> (run_manager a = Some m \<and> get_run m rid = Some run
       \<and> (\<forall>p. map_of (artifacts res) ''notion'' = Some p \<longrightarrow> read_json p \<noteq> Inaccessible)
       \<and> history a \<noteq> Inaccessible \<and> (\<forall>r. dumpable lib r) \<longrightarrow>
        (\<exists>run'. app_get_run
                   (execute_pipeline alive read_json lib Writes a rid
                      \<lparr>callbacks = cbs, outcome = Returned res\<rparr> now) rid = Some run'
           \<and> (status run' = ''completed'' \<longleftrightarrow> errors res = [])
           \<and> (status run' = ''failed'' \<longleftrightarrow> errors res \<noteq> [])
           \<and> result run' = Some res \<and> completed_at run' = Some now
           \<and> error run' = error run))
   \<and> (run_manager a = Some m \<and> get_run m rid = Some run
       \<and> (\<forall>p. map_of (artifacts res) ''notion'' = Some p \<longrightarrow> read_json p \<noteq> Inaccessible)
       \<and> w \<noteq> Writes \<longrightarrow>
        (\<exists>run' msg'. app_get_run
                   (execute_pipeline alive read_json lib w a rid
                      \<lparr>callbacks = cbs, outcome = Returned res\<rparr> now) rid = Some run'
           \<and> status run' = ''failed'' \<and> error run' = Some msg'
           \<and> result run' = Some res \<and> completed_at run' = Some now))
   \<and> (run_manager a = Some m \<and> get_run m rid = Some run \<longrightarrow>
        (\<exists>run'. app_get_run
                   (execute_pipeline alive read_json lib w a rid
                      \<lparr>callbacks = cbs, outcome = Raised msg\<rparr> now) rid = Some run'
           \<and> status run' = ''failed'' \<and> error run' = Some msg
           \<and> completed_at run' = Some now))"
proof (intro conjI impI)
  assume "get_run m rid = Some run"
  then show "get_run (set_run_result m rid res now) rid
        = Some (run\<lparr>result := Some res,
                     status := (if errors res = [] then ''completed'' else ''failed''),
                     completed_at := Some now\<rparr>)"
    by (rule set_run_result_get)
next
  assume "get_run m rid = Some run"
  then show "get_run (set_run_error m rid msg now) rid
        = Some (run\<lparr>error := Some msg, status := ''failed'', completed_at := Some now\<rparr>)"
    by (rule set_run_error_get)
next
  assume h: "run_manager a = Some m \<and> get_run m rid = Some run
       \<and> (\<forall>p. map_of (artifacts res) ''notion'' = Some p \<longrightarrow> read_json p \<noteq> Inaccessible)
       \<and> history a \<noteq> Inaccessible \<and> (\<forall>r. dumpable lib r)"
  from h have hm: "run_manager a = Some m" and hr: "get_run m rid = Some run"
    and hn: "\<forall>p. map_of (artifacts res) ''notion'' = Some p \<longrightarrow> read_json p \<noteq> Inaccessible"
    and hh: "history a \<noteq> Inaccessible" and hd: "\<forall>r. dumpable lib r"
    by simp_all
  from execute_pipeline_before_outcome[OF hm hr, of alive read_json lib Writes cbs
      "Returned res" now]
  obtain a3 m3 p
    where 0: "history a3 = history a"
      and 1: "get_run m3 rid = Some (run\<lparr>status := ''running'', progress := p\<rparr>)"
      and 2: "execute_pipeline alive read_json lib Writes a rid
                \<lparr>callbacks = cbs, outcome = Returned res\<rparr> now
              = on_returned alive read_json lib Writes a3 m3 rid res now"
    by auto
  from hh 0 have hh3: "history a3 \<noteq> Inaccessible" by simp
  from on_returned_saved[OF 1 hn hh3 hd, of alive now] obtain u
    where 3: "app_get_run (on_returned alive read_json lib Writes a3 m3 rid res now) rid
               = Some (run\<lparr>status := ''running'', progress := p, result := Some res,
                            status := (if errors res = [] then ''completed'' else ''failed''),
                            completed_at := Some now, notion_url := u\<rparr>)"
    by blast
  show "\<exists>run'. app_get_run
                   (execute_pipeline alive read_json lib Writes a rid
                      \<lparr>callbacks = cbs, outcome = Returned res\<rparr> now) rid = Some run'
           \<and> (status run' = ''completed'' \<longleftrightarrow> errors res = [])
           \<and> (status run' = ''failed'' \<longleftrightarrow> errors res \<noteq> [])
           \<and> result run' = Some res \<and> completed_at run' = Some now
           \<and> error run' = error run"
    by (simp add: 2 3)
next
  assume h: "run_manager a = Some m \<and> get_run m rid = Some run
       \<and> (\<forall>p. map_of (artifacts res) ''notion'' = Some p \<longrightarrow> read_json p \<noteq> Inaccessible)
       \<and> w \<noteq> Writes"
  from h have hm: "run_manager a = Some m" and hr: "get_run m rid = Some run"
    and hn: "\<forall>p. map_of (artifacts res) ''notion'' = Some p \<longrightarrow> read_json p \<noteq> Inaccessible"
    and hw: "w \<noteq> Writes"
    by simp_all
  from execute_pipeline_before_outcome[OF hm hr, of alive read_json lib w cbs
      "Returned res" now]
  obtain a3 m3 p
    where 1: "get_run m3 rid = Some (run\<lparr>status := ''running'', progress := p\<rparr>)"
      and 2: "execute_pipeline alive read_json lib w a rid
                \<lparr>callbacks = cbs, outcome = Returned res\<rparr> now
              = on_returned alive read_json lib w a3 m3 rid res now"
    by auto
  from on_returned_write_raises[OF 1 hn hw, of alive lib a3 now] obtain u msg'
    where 3: "app_get_run (on_returned alive read_json lib w a3 m3 rid res now) rid
               = Some (run\<lparr>status := ''running'', progress := p, result := Some res,
                            completed_at := Some now, notion_url := u,
                            error := Some msg', status := ''failed''\<rparr>)"
    by blast
  show "\<exists>run' msg'. app_get_run
                   (execute_pipeline alive read_json lib w a rid
                      \<lparr>callbacks = cbs, outcome = Returned res\<rparr> now) rid = Some run'
           \<and> status run' = ''failed'' \<and> error run' = Some msg'
           \<and> result run' = Some res \<and> completed_at run' = Some now"
    by (simp add: 2 3)
next
  assume h: "run_manager a = Some m \<and> get_run m rid = Some run"
  then have hm: "run_manager a = Some m" and hr: "get_run m rid = Some run" by simp_all
  from execute_pipeline_before_outcome[OF hm hr, of alive read_json lib w cbs
      "Raised msg" now]
  obtain a3 m3 p
    where 1: "get_run m3 rid = Some (run\<lparr>status := ''running'', progress := p\<rparr>)"
      and 2: "execute_pipeline alive read_json lib w a rid
                \<lparr>callbacks = cbs, outcome = Raised msg\<rparr> now
              = on_exception alive a3 m3 rid msg now"
    by auto
  show "\<exists>run'. app_get_run
                   (execute_pipeline alive read_json lib w a rid
                      \<lparr>callbacks = cbs, outcome = Raised msg\<rparr> now) rid = Some run'
           \<and> status run' = ''failed'' \<and> error run' = Some msg
           \<and> completed_at run' = Some now"
    by (simp add: 2 on_exception_run[OF 1])
qed

theorem pipeline_outcome_status_witness:
  "run_manager (example_app [run_at ''a'' ''pending'' 1] [])
     = Some (manager_of 1 20 [run_at ''a'' ''pending'' 1])
   \<and> get_run (manager_of 1 20 [run_at ''a'' ''pending'' 1]) ''a''
       = Some (run_at ''a'' ''pending'' 1)
   \<and> map_of (artifacts example_result) ''notion'' = None
   \<and> history (example_app [run_at ''a'' ''pending'' 1] []) = NoFile
   \<and> errors example_result = []
   \<and> map_option status
        (app_get_run
           (execute_pipeline all_alive no_files example_domain Writes
              (example_app [run_at ''a'' ''pending'' 1] []) ''a''
              \<lparr>callbacks = [(''fetch'', ''Fetching episode'')],
                 outcome = Returned example_result\<rparr> 9) ''a'')
       = Some ''completed''
   \<and> map_option result
        (app_get_run
           (execute_pipeline all_alive no_files example_domain Writes
              (example_app [run_at ''a'' ''pending'' 1] []) ''a''
              \<lparr>callbacks = [(''fetch'', ''Fetching episode'')],
                 outcome = Returned example_result\<rparr> 9) ''a'')
       = Some (Some example_result)
   \<and> map_option status
        (app_get_run
           (execute_pipeline all_alive no_files example_domain MkdirRaises
              (example_app [run_at ''a'' ''pending'' 1] []) ''a''
              \<lparr>callbacks = [(''fetch'', ''Fetching episode'')],
                 outcome = Returned example_result\<rparr> 9) ''a'')
       = Some ''failed''
   \<and> map_option status
        (app_get_run
           (execute_pipeline all_alive no_files example_domain Writes
              (example_app [run_at ''a'' ''pending'' 1] []) ''a''
              \<lparr>callbacks = [(''fetch'', ''Fetching episode'')],
                 outcome = Raised ''boom''\<rparr> 9) ''a'')
       = Some ''failed''
   \<and> map_option error
        (app_get_run
           (execute_pipeline all_alive no_files example_domain Writes
              (example_app [run_at ''a'' ''pending'' 1] []) ''a''
              \<lparr>callbacks = [(''fetch'', ''Fetching episode'')],
                 outcome = Raised ''boom''\<rparr> 9) ''a'')
       = Some (Some ''boom'')"
proof -
  let ?a = "example_app [run_at ''a'' ''pending'' 1] []"
  let ?m = "manager_of 1 20 [run_at ''a'' ''pending'' 1]"
  have h: "run_manager ?a = Some ?m" "get_run ?m ''a'' = Some (run_at ''a'' ''pending'' 1)"
    by (simp_all add: example_app_def manager_of_def get_run_def run_at_def)
  have n: "map_of (artifacts example_result) ''notion'' = None"
    by (simp add: example_result_def)
  have hn: "\<forall>p. map_of (artifacts example_result) ''notion'' = Some p
              \<longrightarrow> no_files p \<noteq> Inaccessible"
    by (simp add: n)
  have hh: "history ?a = NoFile" by (simp add: example_app_def)
  have hd: "\<forall>r. dumpable example_domain r" by (simp add: dumpable_def example_domain_def)
  have e: "errors example_result = []" by (simp add: example_result_def)
  note T = pipeline_outcome_status[where a = ?a and m = ?m and rid = "''a''"
      and run = "run_at ''a'' ''pending'' 1" and res = example_result and msg = "''boom''"
      and alive = all_alive and read_json = no_files and lib = example_domain
      and cbs = "[(''fetch'', ''Fetching episode'')]" and now = 9]
  have 1: "\<exists>run'. app_get_run
                   (execute_pipeline all_alive no_files example_domain Writes ?a ''a''
                      \<lparr>callbacks = [(''fetch'', ''Fetching episode'')],
                         outcome = Returned example_result\<rparr> 9) ''a'' = Some run'
             \<and> status run' = ''completed'' \<and> result run' = Some example_result"
    using T[where w = Writes, THEN conjunct2, THEN conjunct1] h hn hh hd e by auto
  have 2: "\<exists>run'. app_get_run
                   (execute_pipeline all_alive no_files example_domain MkdirRaises ?a ''a''
                      \<lparr>callbacks = [(''fetch'', ''Fetching episode'')],
                         outcome = Returned example_result\<rparr> 9) ''a'' = Some run'
             \<and> status run' = ''failed''"
    using T[where w = MkdirRaises, THEN conjunct2, THEN conjunct2, THEN conjunct1] h hn
    by auto
  have 3: "\<exists>run'. app_get_run
                   (execute_pipeline all_alive no_files example_domain Writes ?a ''a''
                      \<lparr>callbacks = [(''fetch'', ''Fetching episode'')],
                         outcome = Raised ''boom''\<rparr> 9) ''a'' = Some run'
             \<and> status run' = ''failed'' \<and> error run' = Some ''boom''"
    using T[where w = Writes, THEN conjunct2, THEN conjunct2, THEN conjunct2] h by auto
  from 1 2 3 h n hh e show ?thesis by auto
qed

section \<open>The snapshot for a new subscriber\<close>

lemma send_progress_sent:
  "\<exists>extra. sent (send_progress alive a rid stage st) = sent a @ extra"
  by (simp add: send_progress_def Let_def split: option.splits)

lemma progress_callback_sent:
  "\<exists>extra. sent (progress_callback alive a rid step st) = sent a @ extra"
  using send_progress_sent[of alive a rid "normalize_stage step" "normalize_status st"]
  by (auto simp: progress_callback_def Let_def split: option.splits)

lemma inbox_append: "sent a' = sent a @ extra \<Longrightarrow> inbox a' w = inbox a w @ map snd (filter (\<lambda>d. fst d = w) extra)"
  by (simp add: inbox_def)

text \<open>
  Claim C9. When a socket connects for a run that has a record, and the socket accepts
  the message, \<^verbatim>\<open>websocket_endpoint\<close> registers it and hands it exactly one message before
  its receive loop starts: stage \<^verbatim>\<open>connected\<close>, the run's current status and its whole
  progress mapping. Nothing else is needed for it to arrive, and whatever
  \<^verbatim>\<open>_send_progress\<close> or a later callback hands to the socket comes after it. The handler
  is taken as one step: the interleaving of tasks by the event loop is not modelled.
\<close>

theorem websocket_snapshot:
  "run_manager a = Some m \<and> get_run m rid = Some run \<and> alive w \<longrightarrow>
     (\<exists>a'. websocket_open alive a w rid = Inr a'
        \<and> run_manager a' = Some m
        \<and> (\<exists>conns. map_of (websocket_connections a') rid = Some conns \<and> w \<in> set conns)
        \<and> sent a' = sent a @ [(w, JsonMessage ''connected'' (status run) (progress run))]
        \<and> inbox a' w = inbox a w @ [JsonMessage ''connected'' (status run) (progress run)]
        \<and> (\<forall>stage st. \<exists>later. inbox (send_progress alive a' rid stage st) w
                                   = inbox a' w @ later)
        \<and> (\<forall>step st. \<exists>later. inbox (progress_callback alive a' rid step st) w
                                  = inbox a' w @ later))"
proof
  assume h: "run_manager a = Some m \<and> get_run m rid = Some run \<and> alive w"
  let ?conns = "(case map_of (websocket_connections a) rid of None \<Rightarrow> [] | Some l \<Rightarrow> l) @ [w]"
  let ?a = "a\<lparr>websocket_connections := dict_set rid ?conns (websocket_connections a),
              sent := sent a @ [(w, JsonMessage ''connected'' (status run) (progress run))]\<rparr>"
  have o: "websocket_open alive a w rid = Inr ?a"
    using h by (simp add: websocket_open_def Let_def)
  have m: "run_manager ?a = Some m" using h by simp
  have c: "map_of (websocket_connections ?a) rid = Some ?conns \<and> w \<in> set ?conns"
    by (simp add: map_of_dict_set)
  have s: "sent ?a = sent a @ [(w, JsonMessage ''connected'' (status run) (progress run))]"
    by simp
  have i: "inbox ?a w = inbox a w @ [JsonMessage ''connected'' (status run) (progress run)]"
    by (simp add: inbox_def)
  have l1: "\<exists>later. inbox (send_progress alive ?a rid stage st) w = inbox ?a w @ later"
    for stage st
    using send_progress_sent[of alive ?a rid stage st] inbox_append by blast
  have l2: "\<exists>later. inbox (progress_callback alive ?a rid step st) w = inbox ?a w @ later"
    for step st
    using progress_callback_sent[of alive ?a rid step st] inbox_append by blast
  show "\<exists>a'. websocket_open alive a w rid = Inr a'
        \<and> run_manager a' = Some m
        \<and> (\<exists>conns. map_of (websocket_connections a') rid = Some conns \<and> w \<in> set conns)
        \<and> sent a' = sent a @ [(w, JsonMessage ''connected'' (status run) (progress run))]
        \<and> inbox a' w = inbox a w @ [JsonMessage ''connected'' (status run) (progress run)]
        \<and> (\<forall>stage st. \<exists>later. inbox (send_progress alive a' rid stage st) w
                                   = inbox a' w @ later)
        \<and> (\<forall>step st. \<exists>later. inbox (progress_callback alive a' rid step st) w
                                  = inbox a' w @ later)"
    using o m c s i l1 l2 by (intro exI[of _ ?a]) blast
qed

theorem websocket_snapshot_witness:
  "(let run = (run_at ''a'' ''running'' 1)\<lparr>progress := [(''fetch'', ''completed'')]\<rparr>;
        a = example_app [run] []
    in run_manager a = Some (manager_of 1 20 [run])
       \<and> get_run (manager_of 1 20 [run]) ''a'' = Some run \<and> (\<lambda>w. True) (7::nat)
       \<and> (\<exists>a'. websocket_open (\<lambda>w. True) a 7 ''a'' = Inr a'
              \<and> inbox a' 7 = [JsonMessage ''connected'' ''running'' [(''fetch'', ''completed'')]]))"
proof -
  let ?run = "(run_at ''a'' ''running'' 1)\<lparr>progress := [(''fetch'', ''completed'')]\<rparr>"
  let ?a = "example_app [?run] []"
  have h: "run_manager ?a = Some (manager_of 1 20 [?run])
           \<and> get_run (manager_of 1 20 [?run]) ''a'' = Some ?run \<and> (\<lambda>w. True) (7::nat)"
    by (simp add: example_app_def manager_of_def get_run_def run_at_def)
  have i0: "inbox ?a 7 = []" by (simp add: inbox_def example_app_def)
  have r: "status ?run = ''running''" "progress ?run = [(''fetch'', ''completed'')]"
    by (simp_all add: run_at_def)
  from websocket_snapshot[where a = ?a and m = "manager_of 1 20 [?run]" and rid = "''a''"
      and run = ?run and alive = "\<lambda>w. True" and w = 7, THEN mp, OF h]
  obtain a' where "websocket_open (\<lambda>w. True) ?a 7 ''a'' = Inr a'"
    and "inbox a' 7 = inbox ?a 7 @ [JsonMessage ''connected'' (status ?run) (progress ?run)]"
    by blast
  then have "\<exists>a'. websocket_open (\<lambda>w. True) ?a 7 ''a'' = Inr a'
              \<and> inbox a' 7 = [JsonMessage ''connected'' ''running'' [(''fetch'', ''completed'')]]"
    by (simp add: i0 r)
  with h show ?thesis by (simp only: Let_def simp_thms)
qed

section \<open>Records in a terminal state\<close>

text \<open>
  Claim C2, as stated, fails. The claim is that once a record is \<^verbatim>\<open>completed\<close>, \<^verbatim>\<open>failed\<close>
  or \<^verbatim>\<open>canceled\<close> nothing changes its status or its progress, a late callback being
  ignored. \<^verbatim>\<open>progress_callback\<close> and \<^verbatim>\<open>update_run_progress\<close> do not look at the status: on a
  canceled run with empty progress, the callback \<^verbatim>\<open>("transcribe", "Transcribing audio")\<close>
  writes \<^verbatim>\<open>transcribe: started\<close> into the progress, and \<^verbatim>\<open>update_run_status\<close> with
  \<^verbatim>\<open>running\<close> makes the run \<^verbatim>\<open>running\<close> again.
\<close>

theorem terminal_record_frozen_counterexample:
  "status (run_at ''a'' ''canceled'' 1) \<in> set [''completed'', ''failed'', ''canceled'']
   \<and> get_run (manager_of 1 20 [run_at ''a'' ''canceled'' 1]) ''a''
       = Some (run_at ''a'' ''canceled'' 1)
   \<and> progress (run_at ''a'' ''canceled'' 1) = []
   \<and> run_manager (progress_callback all_alive (example_app [run_at ''a'' ''canceled'' 1] [])
                     ''a'' ''transcribe'' ''Transcribing audio'')
       = Some (update_run_progress (manager_of 1 20 [run_at ''a'' ''canceled'' 1])
                 ''a'' ''transcribe'' ''started'')
   \<and> map_option progress
         (get_run (update_run_progress (manager_of 1 20 [run_at ''a'' ''canceled'' 1])
                     ''a'' ''transcribe'' ''started'') ''a'')
       = Some [(''transcribe'', ''started'')]
   \<and> map_option progress
         (get_run (update_run_progress (manager_of 1 20 [run_at ''a'' ''canceled'' 1])
                     ''a'' ''transcribe'' ''started'') ''a'')
       \<noteq> map_option progress (get_run (manager_of 1 20 [run_at ''a'' ''canceled'' 1]) ''a'')
   \<and> map_option status
         (get_run (update_run_status (manager_of 1 20 [run_at ''a'' ''canceled'' 1])
                     ''a'' ''running'' 5) ''a'')
       = Some ''running''"
proof -
  have n: "normalize_stage ''transcribe'' = ''transcribe''"
    "normalize_status ''Transcribing audio'' = ''started''"
    by (simp_all add: normalize_stage_def stage_map_def normalize_status_def lower_def
        lower_char_def Let_def)
  have g: "get_run (manager_of 1 20 [run_at ''a'' ''canceled'' 1]) ''a''
       = Some (run_at ''a'' ''canceled'' 1)"
    by (simp add: get_run_def manager_of_def run_at_def)
  have c: "run_manager (progress_callback all_alive (example_app [run_at ''a'' ''canceled'' 1] [])
                     ''a'' ''transcribe'' ''Transcribing audio'')
       = Some (update_run_progress (manager_of 1 20 [run_at ''a'' ''canceled'' 1])
                 ''a'' ''transcribe'' ''started'')"
    using progress_callback_manager[of "example_app [run_at ''a'' ''canceled'' 1] []"
        "manager_of 1 20 [run_at ''a'' ''canceled'' 1]" all_alive "''a''" "''transcribe''"
        "''Transcribing audio''"]
    by (simp add: n example_app_def)
  show ?thesis
    using g c update_run_progress_get[OF g, of "''transcribe''" "''started''"]
      update_run_status_get[OF g, of "''running''" 5]
    by (simp add: run_at_def)
qed

lemma create_run_keeps_others:
  "create_run m cfg uuid now = Inr (uuid, m') \<Longrightarrow> uuid \<noteq> rid \<Longrightarrow> get_run m' rid = get_run m rid"
  by (auto simp: create_run_def Let_def get_run_def map_of_dict_set split: if_splits)

text \<open>
  Claim C2, amended. For a record in a terminal state: \<^verbatim>\<open>cancel_run\<close> returns \<^verbatim>\<open>False\<close> and
  leaves the manager as it is; \<^verbatim>\<open>set_notion_url\<close>, \<^verbatim>\<open>register_task\<close> and a \<^verbatim>\<open>create_run\<close>
  under another identifier leave its status and progress as they are;
  \<^verbatim>\<open>set_run_result\<close> and \<^verbatim>\<open>set_run_error\<close> leave its progress and overwrite its status with
  \<^verbatim>\<open>completed\<close> or \<^verbatim>\<open>failed\<close>; \<^verbatim>\<open>update_run_status\<close> overwrites the status with the one
  given; \<^verbatim>\<open>update_run_progress\<close> writes the stage into the progress, and
  \<^verbatim>\<open>progress_callback\<close> calls it whatever the status is.
\<close>

theorem terminal_record_changes:
  "get_run m rid = Some run \<and> status run \<in> set [''completed'', ''failed'', ''canceled''] \<longrightarrow>
     cancel_run m rid now = (False, m)
     \<and> get_run (set_notion_url m rid url) rid = Some (run\<lparr>notion_url := Some url\<rparr>)
     \<and> get_run (register_task m rid t) rid = Some run
     \<and> (\<forall>m'. uuid \<noteq> rid \<and> create_run m cfg uuid now = Inr (uuid, m') \<longrightarrow>
           get_run m' rid = Some run)
     \<and> get_run (set_run_result m rid res now) rid
         = Some (run\<lparr>result := Some res,
                      status := (if errors res = [] then ''completed'' else ''failed''),
                      completed_at := Some now\<rparr>)
     \<and> get_run (set_run_error m rid msg now) rid
         = Some (run\<lparr>error := Some msg, status := ''failed'', completed_at := Some now\<rparr>)
     \<and> get_run (update_run_status m rid st now) rid
         = Some (if st \<in> set [''completed'', ''failed'', ''canceled'']
                 then run\<lparr>status := st, completed_at := Some now\<rparr> else run\<lparr>status := st\<rparr>)
     \<and> get_run (update_run_progress m rid stage st) rid
         = Some (run\<lparr>progress := dict_set stage st (progress run)\<rparr>)
     \<and> (run_manager a = Some m \<longrightarrow>
           run_manager (progress_callback alive a rid step raw)
             = Some (update_run_progress m rid (normalize_stage step) (normalize_status raw)))"
proof
  assume h: "get_run m rid = Some run \<and> status run \<in> set [''completed'', ''failed'', ''canceled'']"
  then have g: "get_run m rid = Some run" by simp
  have 1: "cancel_run m rid now = (False, m)"
    using h by (auto simp: cancel_run_def get_run_def)
  have 2: "get_run (register_task m rid t) rid = Some run"
    using g by (simp add: register_task_def get_run_def)
  have 3: "\<forall>m'. uuid \<noteq> rid \<and> create_run m cfg uuid now = Inr (uuid, m') \<longrightarrow>
           get_run m' rid = Some run"
    using g create_run_keeps_others[of m cfg uuid now _ rid] by auto
  have 4: "run_manager a = Some m \<longrightarrow>
           run_manager (progress_callback alive a rid step raw)
             = Some (update_run_progress m rid (normalize_stage step) (normalize_status raw))"
    by (simp add: progress_callback_manager)
  show "cancel_run m rid now = (False, m)
     \<and> get_run (set_notion_url m rid url) rid = Some (run\<lparr>notion_url := Some url\<rparr>)
     \<and> get_run (register_task m rid t) rid = Some run
     \<and> (\<forall>m'. uuid \<noteq> rid \<and> create_run m cfg uuid now = Inr (uuid, m') \<longrightarrow>
           get_run m' rid = Some run)
     \<and> get_run (set_run_result m rid res now) rid
         = Some (run\<lparr>result := Some res,
                      status := (if errors res = [] then ''completed'' else ''failed''),
                      completed_at := Some now\<rparr>)
     \<and> get_run (set_run_error m rid msg now) rid
         = Some (run\<lparr>error := Some msg, status := ''failed'', completed_at := Some now\<rparr>)
     \<and> get_run (update_run_status m rid st now) rid
         = Some (if st \<in> set [''completed'', ''failed'', ''canceled'']
                 then run\<lparr>status := st, completed_at := Some now\<rparr> else run\<lparr>status := st\<rparr>)
     \<and> get_run (update_run_progress m rid stage st) rid
         = Some (run\<lparr>progress := dict_set stage st (progress run)\<rparr>)
     \<and> (run_manager a = Some m \<longrightarrow>
           run_manager (progress_callback alive a rid step raw)
             = Some (update_run_progress m rid (normalize_stage step) (normalize_status raw)))"
    using 1 2 3 4 set_notion_url_get[OF g, of url] set_run_result_get[OF g, of res now]
      set_run_error_get[OF g, of msg now] update_run_status_get[OF g, of st now]
      update_run_progress_get[OF g, of stage st]
    by (intro conjI)
qed

theorem terminal_record_changes_witness:
  "get_run (manager_of 1 20 [run_at ''a'' ''canceled'' 1]) ''a''
       = Some (run_at ''a'' ''canceled'' 1)
   \<and> status (run_at ''a'' ''canceled'' 1) \<in> set [''completed'', ''failed'', ''canceled'']
   \<and> ''b'' \<noteq> ''a''
   \<and> create_run (manager_of 1 20 [run_at ''a'' ''canceled'' 1]) () ''b'' 5
       = Inr (''b'', manager_of 1 20 [run_at ''a'' ''canceled'' 1, run_at ''b'' ''pending'' 5])
   \<and> get_run (manager_of 1 20 [run_at ''a'' ''canceled'' 1, run_at ''b'' ''pending'' 5]) ''a''
       = Some (run_at ''a'' ''canceled'' 1)
   \<and> cancel_run (manager_of 1 20 [run_at ''a'' ''canceled'' 1]) ''a'' 6
       = (False, manager_of 1 20 [run_at ''a'' ''canceled'' 1])
   \<and> run_manager (example_app [run_at ''a'' ''canceled'' 1] [])
       = Some (manager_of 1 20 [run_at ''a'' ''canceled'' 1])
   \<and> run_manager (progress_callback all_alive (example_app [run_at ''a'' ''canceled'' 1] [])
                     ''a'' ''align'' ''done'')
       = Some (update_run_progress (manager_of 1 20 [run_at ''a'' ''canceled'' 1]) ''a''
                 (normalize_stage ''align'') (normalize_status ''done''))"
proof -
  have g: "get_run (manager_of 1 20 [run_at ''a'' ''canceled'' 1]) ''a''
       = Some (run_at ''a'' ''canceled'' 1)
   \<and> status (run_at ''a'' ''canceled'' 1) \<in> set [''completed'', ''failed'', ''canceled'']"
    by (simp add: get_run_def manager_of_def run_at_def)
  have c: "create_run (manager_of 1 20 [run_at ''a'' ''canceled'' 1]) () ''b'' 5
       = Inr (''b'', manager_of 1 20 [run_at ''a'' ''canceled'' 1, run_at ''b'' ''pending'' 5])"
    by (simp add: create_run_def manager_of_def run_at_def active_count_def dict_values_def
        Let_def)
  have a: "run_manager (example_app [run_at ''a'' ''canceled'' 1] [])
       = Some (manager_of 1 20 [run_at ''a'' ''canceled'' 1])"
    by (simp add: example_app_def)
  note T = terminal_record_changes[where m = "manager_of 1 20 [run_at ''a'' ''canceled'' 1]"
      and rid = "''a''" and run = "run_at ''a'' ''canceled'' 1" and now = 5 and uuid = "''b''"
      and cfg = "()" and a = "example_app [run_at ''a'' ''canceled'' 1] []"
      and alive = all_alive and step = "''align''" and raw = "''done''", THEN mp, OF g]
  have 1: "cancel_run (manager_of 1 20 [run_at ''a'' ''canceled'' 1]) ''a'' 6
       = (False, manager_of 1 20 [run_at ''a'' ''canceled'' 1])"
    using terminal_record_changes[where m = "manager_of 1 20 [run_at ''a'' ''canceled'' 1]"
      and rid = "''a''" and run = "run_at ''a'' ''canceled'' 1" and now = 6, THEN mp, OF g]
    by (rule conjunct1)
  have 2: "get_run (manager_of 1 20 [run_at ''a'' ''canceled'' 1, run_at ''b'' ''pending'' 5]) ''a''
       = Some (run_at ''a'' ''canceled'' 1)"
    using T[THEN conjunct2, THEN conjunct2, THEN conjunct2, THEN conjunct1] c by simp
  have 3: "run_manager (progress_callback all_alive (example_app [run_at ''a'' ''canceled'' 1] [])
                     ''a'' ''align'' ''done'')
       = Some (update_run_progress (manager_of 1 20 [run_at ''a'' ''canceled'' 1]) ''a''
                 (normalize_stage ''align'') (normalize_status ''done''))"
    using T[THEN conjunct2, THEN conjunct2, THEN conjunct2, THEN conjunct2, THEN conjunct2,
        THEN conjunct2, THEN conjunct2, THEN conjunct2] a by (rule mp)
  from g c a 1 2 3 show ?thesis by simp
qed

section \<open>Listing recent runs\<close>

text \<open>
  Claim C8, against the code. The claim is that the result holds at most \<open>limit\<close> records,
  for every limit, and the docstring of \<^verbatim>\<open>list_recent_runs\<close> calls \<open>limit\<close> the "maximum
  number of runs to return". \<^verbatim>\<open>limit = limit or self.max_history\<close> takes the limit 0 for
  a missing one: with two runs in the registry and no history file,
  \<^verbatim>\<open>list_recent_runs(0)\<close> returns both runs, where \<^verbatim>\<open>list_recent_runs(1)\<close> returns the
  later one alone. The listing also loads the history, and raises where that load
  raises.
\<close>

theorem list_recent_runs_limit_zero:
  "list_recent_runs example_domain
       (manager_of 1 20 [run_at ''a'' ''completed'' 1, run_at ''b'' ''completed'' 2])
       NoFile (Some 0)
     = Inr [loaded_at ''b'' ''completed'' (Naive 2) None,
            loaded_at ''a'' ''completed'' (Naive 1) None]
   \<and> list_recent_runs example_domain
       (manager_of 1 20 [run_at ''a'' ''completed'' 1, run_at ''b'' ''completed'' 2])
       NoFile (Some 1)
     = Inr [loaded_at ''b'' ''completed'' (Naive 2) None]
   \<and> list_recent_runs example_domain
       (manager_of 1 20 [run_at ''a'' ''completed'' 1, run_at ''b'' ''completed'' 2])
       Inaccessible (Some 1)
     = Inl OSError"
proof -
  have i: "l_run_id (loaded_at rid st t res) = JStr rid"
    "l_started_at (loaded_at rid st t res) = t" for rid st t res
    by (simp_all add: loaded_at_def)
  have v: "dict_values (active_runs (manager_of 1 20
             [run_at ''a'' ''completed'' 1, run_at ''b'' ''completed'' 2]))
           = [run_at ''a'' ''completed'' 1, run_at ''b'' ''completed'' 2]"
    by (simp add: manager_of_def dict_values_def)
  have mh: "max_history (manager_of 1 20 runs) = 20" for runs
    by (simp add: manager_of_def)
  show ?thesis
    by (simp add: list_recent_runs_def load_history_def v loaded_of_run_at
        sort_started_desc_def i
        effective_limit_def mh slice_to_def)
qed

end
